theory Spec2Isabelle
  imports Complex_Main "HOL-Library.Word"
begin

section \<open>JavaScript values\<close>

text \<open>
  The values the program throws, catches and inspects. \<open>JError name message\<close> is an
  \<^verbatim>\<open>Error\<close> object (or an object of a subclass) with its \<^verbatim>\<open>name\<close> and
  \<^verbatim>\<open>message\<close> properties; the other constructors are primitives, for which
  \<^verbatim>\<open>.message\<close> is \<^verbatim>\<open>undefined\<close>.
\<close>

datatype jsval = JUndefined | JNull | JStr string | JError string string

text \<open>JavaScript truthiness: \<^verbatim>\<open>undefined\<close>, \<^verbatim>\<open>null\<close> and the empty string are falsy.\<close>

fun truthy :: "jsval \<Rightarrow> bool" where
  "truthy JUndefined = False"
| "truthy JNull = False"
| "truthy (JStr s) = (s \<noteq> [])"
| "truthy (JError n m) = True"

text \<open>\<^verbatim>\<open>String(v)\<close>; for an error object this is \<^verbatim>\<open>Error.prototype.toString\<close>.\<close>

fun js_String :: "jsval \<Rightarrow> string" where
  "js_String JUndefined = ''undefined''"
| "js_String JNull = ''null''"
| "js_String (JStr s) = s"
| "js_String (JError n m) = (if n = [] then m else if m = [] then n else n @ '': '' @ m)"

text \<open>
  The guard \<^verbatim>\<open>err && err.message\<close>: \<open>Some m\<close> when it is truthy (an error object with a
  non-empty message \<open>m\<close>), \<open>None\<close> when it is falsy.
\<close>

fun err_message :: "jsval \<Rightarrow> string option" where
  "err_message (JError n m) = (if m = [] then None else Some m)"
| "err_message _ = None"

text \<open>\<^verbatim>\<open>err && err.message ? String(err.message) : String(err)\<close>\<close>

definition message_or_String :: "jsval \<Rightarrow> string" where
  "message_or_String err = (case err_message err of Some m \<Rightarrow> m | None \<Rightarrow> js_String err)"

text \<open>\<^verbatim>\<open>new Error(msg)\<close>\<close>

definition new_Error :: "string \<Rightarrow> jsval" where
  "new_Error msg = JError ''Error'' msg"

text \<open>\<^verbatim>\<open>s.toUpperCase()\<close> on ASCII text, and \<^verbatim>\<open>s.includes(pat)\<close>.\<close>

definition upper_char :: "char \<Rightarrow> char" where
  "upper_char c = (let n = (of_char c :: nat) in if 97 \<le> n \<and> n \<le> 122 then char_of (n - 32) else c)"

definition toUpperCase :: "string \<Rightarrow> string" where
  "toUpperCase s = map upper_char s"

fun starts_with :: "string \<Rightarrow> string \<Rightarrow> bool" where
  "starts_with s [] = True"
| "starts_with [] (p # ps) = False"
| "starts_with (c # cs) (p # ps) = (c = p \<and> starts_with cs ps)"

fun str_includes :: "string \<Rightarrow> string \<Rightarrow> bool" where
  "str_includes [] pat = (pat = [])"
| "str_includes (c # cs) pat = (starts_with (c # cs) pat \<or> str_includes cs pat)"

section \<open>The reader session (nfc-service.js)\<close>

type_synonym byte = "8 word"

text \<open>
  A reader object of the driver is identified by a number; its fields live in the
  \<open>readers\<close> component of the session, because the event handlers of \<^verbatim>\<open>_init\<close> keep the
  object they were registered for and assign to its \<^verbatim>\<open>card\<close> field. A card payload is
  \<open>None\<close> when the driver passes \<^verbatim>\<open>null\<close> or \<^verbatim>\<open>undefined\<close>; its \<open>uid\<close> is \<open>None\<close> when
  the property is missing.
\<close>

type_synonym rid = nat

record card =
  uid :: "string option"

record reader_obj =
  rname :: string
  rcard :: "card option"
  KEY_TYPE_A :: "nat option"

record NFCService =
  isConnected :: bool
  currentReader :: "rid option"
  lastUID :: "string option"
  lastError :: "string option"
  lastErrorCode :: "string option"
  lastErrorAt :: "int option"
  busy :: bool
  readers :: "rid \<Rightarrow> reader_obj"

text \<open>The constructor, lines 11-22; \<open>busy\<close> is the field \<^verbatim>\<open>_busy\<close>.\<close>

definition new_NFCService :: NFCService where
  "new_NFCService =
     \<lparr>isConnected = False, currentReader = None, lastUID = None, lastError = None,
      lastErrorCode = None, lastErrorAt = None, busy = False,
      readers = (\<lambda>_. \<lparr>rname = [], rcard = None, KEY_TYPE_A = None\<rparr>)\<rparr>"

text \<open>\<^verbatim>\<open>_setError(err)\<close>, lines 24-42; \<open>now\<close> is the value of \<^verbatim>\<open>Date.now()\<close>.\<close>

definition classify :: "string \<Rightarrow> string" where
  "classify msg =
     (let upper = toUpperCase msg in
      if str_includes upper ''SCARD_E_NO_SERVICE'' \<or> str_includes upper ''SERVICE NOT RUNNING''
      then ''PCSC_SERVICE_NOT_RUNNING''
      else if str_includes upper ''SCARD_E_NO_READERS_AVAILABLE'' \<or> str_includes upper ''NO READERS AVAILABLE''
      then ''NO_READERS''
      else ''UNKNOWN'')"

definition setError :: "int \<Rightarrow> jsval \<Rightarrow> NFCService \<Rightarrow> NFCService" where
  "setError now err svc =
     (if \<not> truthy err
      then svc\<lparr>lastError := None, lastErrorCode := None, lastErrorAt := None\<rparr>
      else let msg = message_or_String err in
           svc\<lparr>lastError := Some msg, lastErrorCode := Some (classify msg), lastErrorAt := Some now\<rparr>)"

text \<open>
  The driver events of \<^verbatim>\<open>_init\<close>, lines 44-76. Each constructor stands for one run of
  the handler registered for it: \<open>OnReader r obj\<close> is the \<^verbatim>\<open>'reader'\<close> event delivering
  the reader object \<open>r\<close> whose fields are \<open>obj\<close>; \<open>OnCard\<close>, \<open>OnCardOff\<close>,
  \<open>OnReaderError\<close> and \<open>OnReaderEnd\<close> are the events of reader \<open>r\<close>; \<open>OnNfcError\<close> is the
  \<^verbatim>\<open>'error'\<close> event of the driver itself.
\<close>

datatype driver_event =
    OnReader rid reader_obj
  | OnCard rid "card option"
  | OnCardOff rid
  | OnReaderError rid jsval
  | OnReaderEnd rid
  | OnNfcError jsval

text \<open>\<^verbatim>\<open>card?.uid || null\<close>\<close>

definition card_uid_or_null :: "card option \<Rightarrow> string option" where
  "card_uid_or_null c =
     (case c of None \<Rightarrow> None
      | Some cd \<Rightarrow> (case uid cd of None \<Rightarrow> None | Some u \<Rightarrow> if u = [] then None else Some u))"

definition set_card :: "rid \<Rightarrow> card option \<Rightarrow> NFCService \<Rightarrow> NFCService" where
  "set_card r c svc = svc\<lparr>readers := (readers svc)(r := (readers svc r)\<lparr>rcard := c\<rparr>)\<rparr>"

fun handle :: "int \<Rightarrow> driver_event \<Rightarrow> NFCService \<Rightarrow> NFCService" where
  "handle now (OnReader r obj) svc =
     setError now JNull
       (svc\<lparr>readers := (readers svc)(r := obj), currentReader := Some r, isConnected := True\<rparr>)"
| "handle now (OnCard r c) svc = set_card r c (svc\<lparr>lastUID := card_uid_or_null c\<rparr>)"
| "handle now (OnCardOff r) svc = set_card r None (svc\<lparr>lastUID := None\<rparr>)"
| "handle now (OnReaderError r err) svc = setError now err svc"
| "handle now (OnReaderEnd r) svc =
     svc\<lparr>isConnected := False, currentReader := None, lastUID := None\<rparr>"
| "handle now (OnNfcError err) svc =
     setError now err (svc\<lparr>isConnected := False, currentReader := None, lastUID := None\<rparr>)"

text \<open>\<^verbatim>\<open>getCurrentUID()\<close>, line 78: \<^verbatim>\<open>this.lastUID || null\<close>.\<close>

definition getCurrentUID :: "NFCService \<Rightarrow> string option" where
  "getCurrentUID svc = (case lastUID svc of None \<Rightarrow> None | Some u \<Rightarrow> if u = [] then None else Some u)"

text \<open>
  The card handle as the session sees it, \<^verbatim>\<open>this.currentReader && this.currentReader.card\<close>
  (line 136).
\<close>

definition cardHandle :: "NFCService \<Rightarrow> card option" where
  "cardHandle svc = (case currentReader svc of None \<Rightarrow> None | Some r \<Rightarrow> rcard (readers svc r))"

text \<open>
  \<^verbatim>\<open>getStatus()\<close>, lines 132-142. The result is an object literal: its keys in order,
  each with its value; \<open>FNull\<close> is \<^verbatim>\<open>null\<close>.
\<close>

datatype jsfield = FBool bool | FStr string | FNum int | FNull

type_synonym jsobject = "(string \<times> jsfield) list"

definition str_or_null :: "string option \<Rightarrow> jsfield" where
  "str_or_null x = (case x of None \<Rightarrow> FNull | Some s \<Rightarrow> FStr s)"

definition num_or_null :: "int option \<Rightarrow> jsfield" where
  "num_or_null x = (case x of None \<Rightarrow> FNull | Some n \<Rightarrow> FNum n)"

definition getStatus :: "NFCService \<Rightarrow> jsobject" where
  "getStatus svc =
     [(''connected'', FBool (isConnected svc)),
      (''readerName'',
         (case currentReader svc of None \<Rightarrow> FNull | Some r \<Rightarrow> FStr (rname (readers svc r)))),
      (''cardPresent'', FBool (cardHandle svc \<noteq> None)),
      (''uid'', str_or_null (lastUID svc)),
      (''errorCode'', str_or_null (lastErrorCode svc)),
      (''errorMessage'', str_or_null (lastError svc)),
      (''errorAt'', num_or_null (lastErrorAt svc))]"

subsection \<open>Card handle and UID\<close>

text \<open>The data-model invariant: the card handle and the current UID are both present or both absent.\<close>

definition card_uid_inv :: "NFCService \<Rightarrow> bool" where
  "card_uid_inv svc = ((cardHandle svc \<noteq> None) = (lastUID svc \<noteq> None))"

text \<open>
  A card event or card-removal event comes from the reader the session currently holds;
  the other events need no such link.
\<close>

fun from_current :: "NFCService \<Rightarrow> driver_event \<Rightarrow> bool" where
  "from_current svc (OnCard r c) = (currentReader svc = Some r)"
| "from_current svc (OnCardOff r) = (currentReader svc = Some r)"
| "from_current svc _ = True"

text \<open>An inserted card, when the driver passes one, carries a non-empty UID.\<close>

fun carries_uid :: "driver_event \<Rightarrow> bool" where
  "carries_uid (OnCard r c) = (c = None \<or> card_uid_or_null c \<noteq> None)"
| "carries_uid _ = True"

text \<open>The five kinds of event the invariant is stated for: every event but reader-appeared.\<close>

fun session_event :: "driver_event \<Rightarrow> bool" where
  "session_event (OnReader r obj) = False"
| "session_event _ = True"


section \<open>The driver\<close>

text \<open>
  The driver (the package nfc-pcsc) is outside the program. It is a parameter of the model:
  a state of any type \<open>'d\<close> and one function per primitive the program calls. A failing
  primitive (a rejected promise, a throwing constructor) returns the thrown value.
  \<open>construct\<close> is \<^verbatim>\<open>new NFC()\<close> in the session's constructor together with the
  \<^verbatim>\<open>require\<close> before it: \<open>Some e\<close> when it throws \<open>e\<close>.
\<close>

record 'd driver =
  construct :: "'d \<Rightarrow> jsval option \<times> 'd"
  authenticate :: "rid \<Rightarrow> nat \<Rightarrow> nat \<Rightarrow> byte list \<Rightarrow> 'd \<Rightarrow> (jsval + unit) \<times> 'd"
  read_block :: "rid \<Rightarrow> nat \<Rightarrow> nat \<Rightarrow> nat \<Rightarrow> 'd \<Rightarrow> (jsval + byte list) \<times> 'd"
  write_block :: "rid \<Rightarrow> nat \<Rightarrow> byte list \<Rightarrow> nat \<Rightarrow> 'd \<Rightarrow> (jsval + unit) \<times> 'd"

text \<open>
  Every call the program makes is recorded, in order, next to the driver's state, so that
  a property can say which calls were made and which were not.
\<close>

datatype call =
    Construct
  | Authenticate rid nat nat "byte list"
  | Read rid nat nat nat
  | Write rid nat "byte list" nat

type_synonym 'd env = "'d \<times> call list"

definition call_construct :: "'d driver \<Rightarrow> 'd env \<Rightarrow> jsval option \<times> 'd env" where
  "call_construct drv env =
     (case construct drv (fst env) of (res, d') \<Rightarrow> (res, (d', snd env @ [Construct])))"

definition call_authenticate ::
  "'d driver \<Rightarrow> rid \<Rightarrow> nat \<Rightarrow> nat \<Rightarrow> byte list \<Rightarrow> 'd env \<Rightarrow> (jsval + unit) \<times> 'd env" where
  "call_authenticate drv r block kt key env =
     (case authenticate drv r block kt key (fst env) of
        (res, d') \<Rightarrow> (res, (d', snd env @ [Authenticate r block kt key])))"

definition call_read ::
  "'d driver \<Rightarrow> rid \<Rightarrow> nat \<Rightarrow> nat \<Rightarrow> nat \<Rightarrow> 'd env \<Rightarrow> (jsval + byte list) \<times> 'd env" where
  "call_read drv r block len bs env =
     (case read_block drv r block len bs (fst env) of
        (res, d') \<Rightarrow> (res, (d', snd env @ [Read r block len bs])))"

definition call_write ::
  "'d driver \<Rightarrow> rid \<Rightarrow> nat \<Rightarrow> byte list \<Rightarrow> nat \<Rightarrow> 'd env \<Rightarrow> (jsval + unit) \<times> 'd env" where
  "call_write drv r block buf bs env =
     (case write_block drv r block buf bs (fst env) of
        (res, d') \<Rightarrow> (res, (d', snd env @ [Write r block buf bs])))"

section \<open>Authenticated operations of the session\<close>

text \<open>
  An operation runs from its call to the moment its promise settles; the driver calls it
  awaits are made one after the other. The result is \<open>Inl e\<close> when the promise is rejected
  with \<open>e\<close>.
\<close>

definition vendor_key :: "byte list" where
  "vendor_key = [0xD3, 0xF7, 0xD3, 0xF7, 0xD3, 0xF7]"

definition default_key :: "byte list" where
  "default_key = [0xFF, 0xFF, 0xFF, 0xFF, 0xFF, 0xFF]"

definition auth_keys :: "byte list list" where
  "auth_keys = [vendor_key, default_key]"

text \<open>\<^verbatim>\<open>reader.KEY_TYPE_A || 0x60\<close>\<close>

definition key_type_a :: "reader_obj \<Rightarrow> nat" where
  "key_type_a obj = (case KEY_TYPE_A obj of None \<Rightarrow> 0x60 | Some k \<Rightarrow> if k = 0 then 0x60 else k)"

text \<open>
  The loop of \<^verbatim>\<open>_authenticateBlock\<close>, lines 95-104, over the keys still to try;
  \<open>lastErr\<close> starts as \<^verbatim>\<open>null\<close>.
\<close>

fun try_keys ::
  "'d driver \<Rightarrow> rid \<Rightarrow> nat \<Rightarrow> nat \<Rightarrow> byte list list \<Rightarrow> jsval \<Rightarrow> 'd env \<Rightarrow> (jsval + bool) \<times> 'd env" where
  "try_keys drv r block kt [] lastErr env =
     (Inl (if truthy lastErr then lastErr else new_Error ''NFC_AUTH_FAILED''), env)"
| "try_keys drv r block kt (key # keys) lastErr env =
     (case call_authenticate drv r block kt key env of
        (Inr u, env') \<Rightarrow> (Inr True, env')
      | (Inl e, env') \<Rightarrow> try_keys drv r block kt keys e env')"

text \<open>\<^verbatim>\<open>_authenticateBlock(block)\<close>, lines 87-105.\<close>

definition authenticateBlock ::
  "'d driver \<Rightarrow> NFCService \<Rightarrow> nat \<Rightarrow> 'd env \<Rightarrow> (jsval + bool) \<times> 'd env" where
  "authenticateBlock drv svc block env =
     (case currentReader svc of
        None \<Rightarrow> (Inl (new_Error ''NFC_NOT_CONNECTED''), env)
      | Some r \<Rightarrow> try_keys drv r block (key_type_a (readers svc r)) auth_keys JNull env)"

text \<open>\<^verbatim>\<open>_withLock(fn)\<close>, lines 80-84.\<close>

definition withLock ::
  "(NFCService \<Rightarrow> 'd env \<Rightarrow> (jsval + 'a) \<times> NFCService \<times> 'd env) \<Rightarrow>
   NFCService \<Rightarrow> 'd env \<Rightarrow> (jsval + 'a) \<times> NFCService \<times> 'd env" where
  "withLock fn svc env =
     (if busy svc then (Inl (new_Error ''Busy''), svc, env)
      else (case fn (svc\<lparr>busy := True\<rparr>) env of
              (res, svc', env') \<Rightarrow> (res, svc'\<lparr>busy := False\<rparr>, env')))"

text \<open>
  The value thrown by \<^verbatim>\<open>this.currentReader.read\<close> or \<^verbatim>\<open>.write\<close> when
  \<^verbatim>\<open>this.currentReader\<close> is \<^verbatim>\<open>null\<close>; the message text is the engine's.
\<close>

definition null_reader_error :: jsval where
  "null_reader_error = JError ''TypeError'' ''Cannot read properties of null''"

text \<open>
  \<^verbatim>\<open>data[i]\<close> on the buffer a read returns (\<open>None\<close> is \<^verbatim>\<open>undefined\<close>, past the end), and
  \<^verbatim>\<open>data[i] || d\<close>.
\<close>

definition buf_get :: "byte list \<Rightarrow> nat \<Rightarrow> byte option" where
  "buf_get data i = (if i < length data then Some (data ! i) else None)"

definition byte_or :: "byte option \<Rightarrow> nat \<Rightarrow> nat" where
  "byte_or x d = (case x of None \<Rightarrow> d | Some b \<Rightarrow> if b = 0 then d else unat b)"

record TagRecord =
  material :: nat
  color :: nat
  manufacturer :: nat
  rawData :: "nat list"

text \<open>Lines 112-115 of \<^verbatim>\<open>readTag\<close>.\<close>

definition decodeTag :: "byte list \<Rightarrow> TagRecord" where
  "decodeTag data =
     \<lparr>material = byte_or (buf_get data 0) 0,
      color = byte_or (buf_get data 1) 0,
      manufacturer = byte_or (buf_get data 2) 1,
      rawData = map unat data\<rparr>"

text \<open>
  \<^verbatim>\<open>readTag()\<close>, lines 107-117; \<open>read_sequence\<close> is the function it passes to
  \<^verbatim>\<open>_withLock\<close>, the calls against the hardware.
\<close>

definition read_sequence ::
  "'d driver \<Rightarrow> NFCService \<Rightarrow> 'd env \<Rightarrow> (jsval + TagRecord) \<times> NFCService \<times> 'd env" where
  "read_sequence drv svc env =
     (case authenticateBlock drv svc 4 env of
        (Inl e, env1) \<Rightarrow> (Inl e, svc, env1)
      | (Inr ok, env1) \<Rightarrow>
          (case currentReader svc of
             None \<Rightarrow> (Inl null_reader_error, svc, env1)
           | Some r \<Rightarrow>
               (case call_read drv r 4 16 16 env1 of
                  (Inl e, env2) \<Rightarrow> (Inl e, svc, env2)
                | (Inr data, env2) \<Rightarrow> (Inr (decodeTag data), svc, env2))))"

definition readTag ::
  "'d driver \<Rightarrow> NFCService \<Rightarrow> 'd env \<Rightarrow> (jsval + TagRecord) \<times> NFCService \<times> 'd env" where
  "readTag drv svc env =
     (if currentReader svc = None then (Inl (new_Error ''NFC_NOT_CONNECTED''), svc, env)
      else withLock (read_sequence drv) svc env)"

text \<open>
  A JavaScript number: not-a-number, a finite value, or an infinity. The finite doubles
  are rational numbers; no arithmetic is done on them here but truncation.
\<close>

datatype jsnum = NaN | Fin rat | PosInf | NegInf

text \<open>\<^verbatim>\<open>x || d\<close> on numbers: \<^verbatim>\<open>NaN\<close> and zero are falsy.\<close>

fun num_truthy :: "jsnum \<Rightarrow> bool" where
  "num_truthy NaN = False"
| "num_truthy (Fin q) = (q \<noteq> 0)"
| "num_truthy PosInf = True"
| "num_truthy NegInf = True"

definition num_or :: "jsnum \<Rightarrow> jsnum \<Rightarrow> jsnum" where
  "num_or x d = (if num_truthy x then x else d)"

text \<open>
  Storing a number in an element of a \<^verbatim>\<open>Buffer\<close> (a \<^verbatim>\<open>Uint8Array\<close>): the conversion
  \<^verbatim>\<open>ToUint8\<close> of the language, truncation towards zero and then the value modulo 256;
  \<^verbatim>\<open>NaN\<close> and the infinities are stored as 0.
\<close>

definition trunc :: "rat \<Rightarrow> int" where
  "trunc q = (if q < 0 then \<lceil>q\<rceil> else \<lfloor>q\<rfloor>)"

fun ToUint8 :: "jsnum \<Rightarrow> byte" where
  "ToUint8 NaN = 0"
| "ToUint8 (Fin q) = word_of_int (trunc q)"
| "ToUint8 PosInf = 0"
| "ToUint8 NegInf = 0"

text \<open>
  Lines 123-126 of \<^verbatim>\<open>writeTag\<close>. The arguments are numbers already (the only caller
  passes results of \<^verbatim>\<open>parseInt\<close>), so \<^verbatim>\<open>Number(x)\<close> is the identity on them; the
  third argument is \<open>None\<close> when it is omitted, and then takes its default 1.
\<close>

definition tag_buffer :: "jsnum \<Rightarrow> jsnum \<Rightarrow> jsnum option \<Rightarrow> byte list" where
  "tag_buffer materialCode colorCode manufacturerCode =
     (replicate 16 0)
       [0 := ToUint8 (num_or materialCode (Fin 0)),
        1 := ToUint8 (num_or colorCode (Fin 0)),
        2 := ToUint8 (num_or (case manufacturerCode of None \<Rightarrow> Fin 1 | Some x \<Rightarrow> x) (Fin 1))]"

text \<open>
  \<^verbatim>\<open>writeTag(materialCode, colorCode, manufacturerCode = 1)\<close>, lines 119-130;
  \<open>write_sequence\<close> is the function it passes to \<^verbatim>\<open>_withLock\<close>.
\<close>

definition write_sequence ::
  "'d driver \<Rightarrow> jsnum \<Rightarrow> jsnum \<Rightarrow> jsnum option \<Rightarrow> NFCService \<Rightarrow> 'd env \<Rightarrow>
   (jsval + bool) \<times> NFCService \<times> 'd env" where
  "write_sequence drv materialCode colorCode manufacturerCode svc env =
     (case authenticateBlock drv svc 4 env of
        (Inl e, env1) \<Rightarrow> (Inl e, svc, env1)
      | (Inr ok, env1) \<Rightarrow>
          (let buf = tag_buffer materialCode colorCode manufacturerCode in
           case currentReader svc of
             None \<Rightarrow> (Inl null_reader_error, svc, env1)
           | Some r \<Rightarrow>
               (case call_write drv r 4 buf 16 env1 of
                  (Inl e, env2) \<Rightarrow> (Inl e, svc, env2)
                | (Inr u, env2) \<Rightarrow> (Inr True, svc, env2))))"

definition writeTag ::
  "'d driver \<Rightarrow> jsnum \<Rightarrow> jsnum \<Rightarrow> jsnum option \<Rightarrow> NFCService \<Rightarrow> 'd env \<Rightarrow>
   (jsval + bool) \<times> NFCService \<times> 'd env" where
  "writeTag drv materialCode colorCode manufacturerCode svc env =
     (if currentReader svc = None then (Inl (new_Error ''NFC_NOT_CONNECTED''), svc, env)
      else withLock (write_sequence drv materialCode colorCode manufacturerCode) svc env)"

section \<open>The request coordinator (the process entry point)\<close>

text \<open>
  The module-level variables of the entry point, lines 18-26 and 56-76. \<open>mainWindow\<close>
  says that the window exists and is not destroyed; \<open>autoLoop\<close> that the interval timer
  is set; \<open>nfcInitFailedAt\<close> is 0 when no failure is recorded; \<open>sent\<close> collects the
  payloads sent on the channel \<^verbatim>\<open>rfid-auto-status\<close>, oldest first.
\<close>

record auto_status =
  present :: bool
  tagData :: "TagRecord option"
  error :: "string option"

record coordinator =
  nfcService :: "NFCService option"
  nfcInitFailedAt :: int
  nfcInitLastErr :: "jsval option"
  isBusy :: bool
  autoEnabled :: bool
  autoLoop :: bool
  lastAutoUID :: "string option"
  mainWindow :: bool
  sent :: "auto_status list"

definition NFC_RETRY_AFTER_MS :: int where
  "NFC_RETRY_AFTER_MS = 5000"

text \<open>\<^verbatim>\<open>tryGetNfcService()\<close>, lines 28-30.\<close>

definition tryGetNfcService :: "coordinator \<Rightarrow> NFCService option" where
  "tryGetNfcService co = nfcService co"

text \<open>
  \<^verbatim>\<open>getNfcService(options)\<close>, lines 32-55, with \<open>forceRetry\<close> for
  \<^verbatim>\<open>!!options.forceRetry\<close> and \<open>now\<close> for \<^verbatim>\<open>Date.now()\<close>. A session that is
  constructed starts as \<open>new_NFCService\<close>.
\<close>

definition getNfcService ::
  "'d driver \<Rightarrow> bool \<Rightarrow> int \<Rightarrow> coordinator \<Rightarrow> 'd env \<Rightarrow> (jsval + NFCService) \<times> coordinator \<times> 'd env" where
  "getNfcService drv forceRetry now co env =
     (case nfcService co of
        Some svc \<Rightarrow> (Inr svc, co, env)
      | None \<Rightarrow>
          if \<not> forceRetry \<and> nfcInitFailedAt co \<noteq> 0 \<and> now - nfcInitFailedAt co < NFC_RETRY_AFTER_MS
          then (Inl (new_Error ''NFC_NOT_CONNECTED''), co, env)
          else (case call_construct drv env of
                  (None, env') \<Rightarrow>
                    (Inr new_NFCService,
                     co\<lparr>nfcService := Some new_NFCService, nfcInitFailedAt := 0, nfcInitLastErr := None\<rparr>,
                     env')
                | (Some e, env') \<Rightarrow>
                    (Inl (new_Error ''NFC_NOT_CONNECTED''),
                     co\<lparr>nfcService := None, nfcInitFailedAt := now, nfcInitLastErr := Some e\<rparr>,
                     env')))"

text \<open>\<^verbatim>\<open>toMessageKey(err)\<close>, lines 58-70.\<close>

definition toMessageKey :: "jsval \<Rightarrow> string" where
  "toMessageKey err =
     (let msg = (case err_message err of
                   Some m \<Rightarrow> m
                 | None \<Rightarrow> js_String (if truthy err then err else JStr []))
      in if msg = ''Busy'' then ''busy''
         else if msg = ''NFC_NOT_CONNECTED'' then ''nfcNotConnected''
         else if msg = ''NFC_AUTH_FAILED'' then ''nfcAuthFailed''
         else ''unknownError'')"

text \<open>\<^verbatim>\<open>sendAutoStatus(payload)\<close>, lines 135-139.\<close>

definition sendAutoStatus :: "auto_status \<Rightarrow> coordinator \<Rightarrow> coordinator" where
  "sendAutoStatus payload co = (if mainWindow co then co\<lparr>sent := sent co @ [payload]\<rparr> else co)"

text \<open>
  The result of the handlers \<^verbatim>\<open>rfid-read\<close> and \<^verbatim>\<open>rfid-write\<close>; a key that the
  returned object does not have is \<open>None\<close>.
\<close>

record response =
  success :: bool
  rdata :: "TagRecord option"
  messageKey :: "string option"
  details :: "string option"

definition busy_response :: response where
  "busy_response = \<lparr>success = False, rdata = None, messageKey = Some ''busy'', details = None\<rparr>"

definition failure_response :: "jsval \<Rightarrow> response" where
  "failure_response err =
     \<lparr>success = False, rdata = None, messageKey = Some (toMessageKey err),
      details = Some (message_or_String err)\<rparr>"

text \<open>
  The handler \<^verbatim>\<open>rfid-read\<close>, lines 202-213, from its call to its result. The session
  object is shared, so what \<open>readTag\<close> did to it is stored back.
\<close>

definition rfid_read ::
  "'d driver \<Rightarrow> int \<Rightarrow> coordinator \<Rightarrow> 'd env \<Rightarrow> response \<times> coordinator \<times> 'd env" where
  "rfid_read drv now co env =
     (if isBusy co then (busy_response, co, env)
      else (case getNfcService drv True now (co\<lparr>isBusy := True\<rparr>) env of
              (Inl err, co1, env1) \<Rightarrow> (failure_response err, co1\<lparr>isBusy := False\<rparr>, env1)
            | (Inr svc, co1, env1) \<Rightarrow>
                (case readTag drv svc env1 of
                   (Inl err, svc', env2) \<Rightarrow>
                     (failure_response err, co1\<lparr>nfcService := Some svc', isBusy := False\<rparr>, env2)
                 | (Inr rec, svc', env2) \<Rightarrow>
                     (\<lparr>success = True, rdata = Some rec, messageKey = None, details = None\<rparr>,
                      co1\<lparr>nfcService := Some svc', isBusy := False\<rparr>, env2))))"

text \<open>
  The handler \<^verbatim>\<open>rfid-write\<close>, lines 185-200. Its three arguments are the results of
  the three \<^verbatim>\<open>parseInt\<close> calls of lines 190-192, which cannot throw.
\<close>

definition rfid_write ::
  "'d driver \<Rightarrow> int \<Rightarrow> jsnum \<Rightarrow> jsnum \<Rightarrow> jsnum \<Rightarrow> coordinator \<Rightarrow> 'd env \<Rightarrow>
   response \<times> coordinator \<times> 'd env" where
  "rfid_write drv now materialCode colorCode manufacturerCode co env =
     (if isBusy co then (busy_response, co, env)
      else (case getNfcService drv True now (co\<lparr>isBusy := True\<rparr>) env of
              (Inl err, co1, env1) \<Rightarrow> (failure_response err, co1\<lparr>isBusy := False\<rparr>, env1)
            | (Inr svc, co1, env1) \<Rightarrow>
                (case writeTag drv materialCode colorCode (Some manufacturerCode) svc env1 of
                   (Inl err, svc', env2) \<Rightarrow>
                     (failure_response err, co1\<lparr>nfcService := Some svc', isBusy := False\<rparr>, env2)
                 | (Inr ok, svc', env2) \<Rightarrow>
                     (\<lparr>success = True, rdata = None, messageKey = None, details = None\<rparr>,
                      co1\<lparr>nfcService := Some svc', isBusy := False\<rparr>, env2))))"

text \<open>The handler \<^verbatim>\<open>rfid-status\<close>, lines 215-222.\<close>

definition rfid_status ::
  "'d driver \<Rightarrow> coordinator \<Rightarrow> 'd env \<Rightarrow> jsobject \<times> coordinator \<times> 'd env" where
  "rfid_status drv co env =
     (case tryGetNfcService co of
        None \<Rightarrow>
          ([(''connected'', FBool False), (''readerName'', FNull),
            (''cardPresent'', FBool False), (''uid'', FNull)], co, env)
      | Some svc \<Rightarrow> (getStatus svc, co, env))"

text \<open>
  The other entry point in the repository constructs the session eagerly: its
  \<^verbatim>\<open>getNfcService()\<close>, lines 23-26, and its handler \<^verbatim>\<open>rfid-status\<close>, lines 166-168.
  The handler's promise is rejected when the constructor throws.
\<close>

definition getNfcService_eager ::
  "'d driver \<Rightarrow> coordinator \<Rightarrow> 'd env \<Rightarrow> (jsval + NFCService) \<times> coordinator \<times> 'd env" where
  "getNfcService_eager drv co env =
     (case nfcService co of
        Some svc \<Rightarrow> (Inr svc, co, env)
      | None \<Rightarrow>
          (case call_construct drv env of
             (None, env') \<Rightarrow> (Inr new_NFCService, co\<lparr>nfcService := Some new_NFCService\<rparr>, env')
           | (Some e, env') \<Rightarrow> (Inl e, co, env')))"

definition rfid_status_eager ::
  "'d driver \<Rightarrow> coordinator \<Rightarrow> 'd env \<Rightarrow> (jsval + jsobject) \<times> coordinator \<times> 'd env" where
  "rfid_status_eager drv co env =
     (case getNfcService_eager drv co env of
        (Inl e, co1, env1) \<Rightarrow> (Inl e, co1, env1)
      | (Inr svc, co1, env1) \<Rightarrow> (Inr (getStatus svc), co1, env1))"

text \<open>The state of the entry point when the process starts.\<close>

definition initial_coordinator :: coordinator where
  "initial_coordinator =
     \<lparr>nfcService = None, nfcInitFailedAt = 0, nfcInitLastErr = None, isBusy = False,
      autoEnabled = False, autoLoop = False, lastAutoUID = None, mainWindow = True, sent = []\<rparr>"

section \<open>The auto-detect loop\<close>

text \<open>
  The value thrown by \<^verbatim>\<open>err.message\<close> when \<^verbatim>\<open>err\<close> is \<^verbatim>\<open>null\<close> or
  \<^verbatim>\<open>undefined\<close>; the message text is the engine's.
\<close>

definition null_message_error :: jsval where
  "null_message_error = JError ''TypeError'' ''Cannot read properties of undefined''"

text \<open>
  The \<^verbatim>\<open>catch\<close> and \<^verbatim>\<open>finally\<close> of lines 158-162 in the timer callback. The payload
  has \<^verbatim>\<open>err.message || String(err)\<close>, which throws for \<^verbatim>\<open>null\<close> and
  \<^verbatim>\<open>undefined\<close>; the outer \<^verbatim>\<open>catch\<close> of lines 168-172 then runs, after the
  \<^verbatim>\<open>finally\<close>.
\<close>

definition tick_read_failed :: "jsval \<Rightarrow> coordinator \<Rightarrow> coordinator" where
  "tick_read_failed err co =
     (if err = JUndefined \<or> err = JNull
      then sendAutoStatus
             \<lparr>present = False, tagData = None, error = Some (message_or_String null_message_error)\<rparr>
             (co\<lparr>isBusy := False, lastAutoUID := None\<rparr>)
      else (sendAutoStatus \<lparr>present = True, tagData = None, error = Some (message_or_String err)\<rparr> co)
             \<lparr>isBusy := False\<rparr>)"

text \<open>The \<^verbatim>\<open>try\<close> block of lines 155-157 after a read that succeeded, and the \<^verbatim>\<open>finally\<close>.\<close>

definition tick_read_done :: "string \<Rightarrow> TagRecord \<Rightarrow> coordinator \<Rightarrow> coordinator" where
  "tick_read_done u rec co =
     (sendAutoStatus \<lparr>present = True, tagData = Some rec, error = None\<rparr> (co\<lparr>lastAutoUID := Some u\<rparr>))
       \<lparr>isBusy := False\<rparr>"

text \<open>\<^verbatim>\<open>lastAutoUID\<close> as a condition: a non-empty string.\<close>

definition uid_truthy :: "string option \<Rightarrow> bool" where
  "uid_truthy x = (case x of None \<Rightarrow> False | Some u \<Rightarrow> u \<noteq> [])"

text \<open>
  The timer callback of \<^verbatim>\<open>startAutoLoop\<close>, lines 143-173, from its start to the end of
  the read it awaits.
\<close>

definition tick :: "'d driver \<Rightarrow> coordinator \<Rightarrow> 'd env \<Rightarrow> coordinator \<times> 'd env" where
  "tick drv co env =
     (if \<not> autoEnabled co then (co, env)
      else if isBusy co then (co, env)
      else (case tryGetNfcService co of
              None \<Rightarrow> (co, env)
            | Some svc \<Rightarrow>
                (case getCurrentUID svc of
                   Some u \<Rightarrow>
                     if lastAutoUID co \<noteq> Some u
                     then (case readTag drv svc env of
                             (Inr rec, svc', env') \<Rightarrow>
                               (tick_read_done u rec (co\<lparr>isBusy := True, nfcService := Some svc'\<rparr>), env')
                           | (Inl err, svc', env') \<Rightarrow>
                               (tick_read_failed err (co\<lparr>isBusy := True, nfcService := Some svc'\<rparr>), env'))
                     else (co, env)
                 | None \<Rightarrow>
                     if uid_truthy (lastAutoUID co)
                     then (sendAutoStatus \<lparr>present = False, tagData = None, error = None\<rparr>
                             (co\<lparr>lastAutoUID := None\<rparr>), env)
                     else (co, env))))"

text \<open>
  A run of the loop: one tick for each element of the list, which is the state of the
  session at that tick, as the driver events since the tick before have left it.
\<close>

fun auto_ticks :: "'d driver \<Rightarrow> NFCService list \<Rightarrow> coordinator \<Rightarrow> 'd env \<Rightarrow> coordinator \<times> 'd env" where
  "auto_ticks drv [] co env = (co, env)"
| "auto_ticks drv (svc # svcs) co env =
     (case tick drv (co\<lparr>nfcService := Some svc\<rparr>) env of
        (co', env') \<Rightarrow> auto_ticks drv svcs co' env')"

text \<open>The payloads sent since the coordinator was in state \<open>co\<close>.\<close>

definition sent_since :: "coordinator \<Rightarrow> coordinator \<Rightarrow> auto_status list" where
  "sent_since co co' = drop (length (sent co)) (sent co')"

text \<open>
  Whether the tick that finds the coordinator in state \<open>co\<close> and the session in state
  \<open>svc\<close> starts a read: the guards of lines 145, 146 and 151 let it through when
  auto-detect is enabled, the coordinator is idle and the session reports a UID other
  than the last one seen.
\<close>

definition tick_reads :: "coordinator \<Rightarrow> NFCService \<Rightarrow> bool" where
  "tick_reads co svc \<longleftrightarrow>
     autoEnabled co \<and> \<not> isBusy co \<and>
     (case getCurrentUID svc of None \<Rightarrow> False | Some u \<Rightarrow> lastAutoUID co \<noteq> Some u)"

definition read_ok :: "jsval + TagRecord \<Rightarrow> bool" where
  "read_ok res = (case res of Inl err \<Rightarrow> False | Inr rec \<Rightarrow> True)"

text \<open>
  Every read that a run of the loop performs succeeds: at each tick of the run that
  starts a read, in the state of the coordinator and of the driver that the run has
  reached there, \<open>readTag\<close> returns a record. Nothing is asked of a tick that starts no
  read, nor of the driver in states the run does not reach.
\<close>

fun reads_succeed :: "'d driver \<Rightarrow> NFCService list \<Rightarrow> coordinator \<Rightarrow> 'd env \<Rightarrow> bool" where
  "reads_succeed drv [] co env = True"
| "reads_succeed drv (svc # svcs) co env =
     ((tick_reads co svc \<longrightarrow> read_ok (fst (readTag drv svc env))) \<and>
      (case tick drv (co\<lparr>nfcService := Some svc\<rparr>) env of
         (co', env') \<Rightarrow> reads_succeed drv svcs co' env'))"

section \<open>Interleaving of requests, ticks and driver events\<close>

text \<open>
  The program runs on one thread: a handler runs without interruption until it awaits a
  driver call, and continues when the call settles. An authenticate/read/write sequence
  is in flight from the first driver call of \<^verbatim>\<open>readTag\<close> or \<^verbatim>\<open>writeTag\<close> to the
  moment the promise of that operation settles; while it is in flight other handlers,
  timer callbacks and driver events run. The world keeps the sequences in flight, each
  with the handler that awaits it; the UID kept with a tick or with the auto-detect
  request is the one the handler read before it started the sequence.
\<close>

datatype owner = ManualRead | ManualWrite | TickRead string | AutoRead string

text \<open>How a sequence settles: rejected with a value, or with the record read, or written.\<close>

datatype outcome = Rejected jsval | ReadDone TagRecord | WriteDone

text \<open>What the handlers return to the presentation layer.\<close>

datatype reply = ReadReply response | WriteReply response | AutoReply bool "string option"

record 'd world =
  coord :: coordinator
  denv :: "'d env"
  flights :: "owner list"
  replies :: "reply list"

datatype event =
    ReqRead int
  | ReqWrite int
  | ReqAuto int bool
  | InitTimer int
  | TimerTick
  | Driver int driver_event
  | Settle nat outcome

text \<open>
  The part of \<^verbatim>\<open>readTag\<close> and \<^verbatim>\<open>writeTag\<close> that runs before the first driver call:
  the check of the reader (line 108 or 120) and \<^verbatim>\<open>_withLock\<close> up to the call of its
  argument (lines 81-82). \<open>Some e\<close> is a promise rejected with \<open>e\<close> before any driver
  call; \<open>None\<close> means that the sequence has started.
\<close>

definition op_begin :: "NFCService \<Rightarrow> jsval option \<times> NFCService" where
  "op_begin svc =
     (if currentReader svc = None then (Some (new_Error ''NFC_NOT_CONNECTED''), svc)
      else if busy svc then (Some (new_Error ''Busy''), svc)
      else (None, svc\<lparr>busy := True\<rparr>))"

text \<open>The \<^verbatim>\<open>finally\<close> of \<^verbatim>\<open>_withLock\<close>, line 83, on the session the coordinator holds.\<close>

definition release :: "coordinator \<Rightarrow> coordinator" where
  "release co = co\<lparr>nfcService := map_option (\<lambda>svc. svc\<lparr>busy := False\<rparr>) (nfcService co)\<rparr>"

text \<open>
  The handlers \<^verbatim>\<open>rfid-read\<close> and \<^verbatim>\<open>rfid-write\<close> up to their \<^verbatim>\<open>await\<close>. The two
  differ in the operation they call and in nothing that happens before the first driver
  call.
\<close>

definition request_begin ::
  "'d driver \<Rightarrow> owner \<Rightarrow> (response \<Rightarrow> reply) \<Rightarrow> int \<Rightarrow> 'd world \<Rightarrow> 'd world" where
  "request_begin drv ow mk now w =
     (if isBusy (coord w) then w\<lparr>replies := replies w @ [mk busy_response]\<rparr>
      else (case getNfcService drv True now ((coord w)\<lparr>isBusy := True\<rparr>) (denv w) of
              (Inl err, co1, env1) \<Rightarrow>
                w\<lparr>coord := co1\<lparr>isBusy := False\<rparr>, denv := env1,
                  replies := replies w @ [mk (failure_response err)]\<rparr>
            | (Inr svc, co1, env1) \<Rightarrow>
                (case op_begin svc of
                   (Some err, svc1) \<Rightarrow>
                     w\<lparr>coord := co1\<lparr>nfcService := Some svc1, isBusy := False\<rparr>, denv := env1,
                       replies := replies w @ [mk (failure_response err)]\<rparr>
                 | (None, svc1) \<Rightarrow>
                     w\<lparr>coord := co1\<lparr>nfcService := Some svc1\<rparr>, denv := env1,
                       flights := flights w @ [ow]\<rparr>)))"

text \<open>The rest of the two handlers, once the operation has settled.\<close>

definition request_end :: "(response \<Rightarrow> reply) \<Rightarrow> outcome \<Rightarrow> 'd world \<Rightarrow> 'd world" where
  "request_end mk oc w =
     w\<lparr>coord := (release (coord w))\<lparr>isBusy := False\<rparr>,
       replies := replies w @
         [mk (case oc of
                Rejected err \<Rightarrow> failure_response err
              | ReadDone rec \<Rightarrow> \<lparr>success = True, rdata = Some rec, messageKey = None, details = None\<rparr>
              | WriteDone \<Rightarrow> \<lparr>success = True, rdata = None, messageKey = None, details = None\<rparr>)]\<rparr>"

text \<open>
  The timer callback up to its \<^verbatim>\<open>await\<close>, lines 144-155 and 163-167. There is a
  callback only while the interval timer is set.
\<close>

definition tick_begin :: "'d world \<Rightarrow> 'd world" where
  "tick_begin w =
     (let co = coord w in
      if \<not> autoLoop co then w
      else if \<not> autoEnabled co then w
      else if isBusy co then w
      else (case tryGetNfcService co of
              None \<Rightarrow> w
            | Some svc \<Rightarrow>
                (case getCurrentUID svc of
                   Some u \<Rightarrow>
                     if lastAutoUID co \<noteq> Some u
                     then (case op_begin svc of
                             (Some err, svc1) \<Rightarrow>
                               w\<lparr>coord := tick_read_failed err (co\<lparr>isBusy := True, nfcService := Some svc1\<rparr>)\<rparr>
                           | (None, svc1) \<Rightarrow>
                               w\<lparr>coord := co\<lparr>isBusy := True, nfcService := Some svc1\<rparr>,
                                 flights := flights w @ [TickRead u]\<rparr>)
                     else w
                 | None \<Rightarrow>
                     if uid_truthy (lastAutoUID co)
                     then w\<lparr>coord := sendAutoStatus \<lparr>present = False, tagData = None, error = None\<rparr>
                                       (co\<lparr>lastAutoUID := None\<rparr>)\<rparr>
                     else w)))"

text \<open>The rest of the timer callback, lines 156-162 and 168-172.\<close>

definition tick_end :: "string \<Rightarrow> outcome \<Rightarrow> 'd world \<Rightarrow> 'd world" where
  "tick_end u oc w =
     (case oc of
        Rejected err \<Rightarrow> w\<lparr>coord := tick_read_failed err (release (coord w))\<rparr>
      | ReadDone rec \<Rightarrow> w\<lparr>coord := tick_read_done u rec (release (coord w))\<rparr>
      | WriteDone \<Rightarrow> w)"

text \<open>\<^verbatim>\<open>startAutoLoop\<close> (lines 141-143, 173) and \<^verbatim>\<open>stopAutoLoop\<close> (lines 176-182).\<close>

definition startAutoLoop :: "coordinator \<Rightarrow> coordinator" where
  "startAutoLoop co = co\<lparr>autoLoop := True\<rparr>"

definition stopAutoLoop :: "coordinator \<Rightarrow> coordinator" where
  "stopAutoLoop co = co\<lparr>autoLoop := False, lastAutoUID := None\<rparr>"

text \<open>The handler \<^verbatim>\<open>rfid-auto\<close>, lines 223-259, up to its \<^verbatim>\<open>await\<close> or to its end.\<close>

definition auto_begin :: "'d driver \<Rightarrow> int \<Rightarrow> bool \<Rightarrow> 'd world \<Rightarrow> 'd world" where
  "auto_begin drv now enable w =
     (let co0 = (coord w)\<lparr>autoEnabled := enable\<rparr> in
      if enable
      then (case getNfcService drv True now co0 (denv w) of
              (Inl err, co1, env1) \<Rightarrow>
                w\<lparr>coord := sendAutoStatus
                             \<lparr>present = False, tagData = None, error = Some ''NFC_NOT_CONNECTED''\<rparr>
                             (stopAutoLoop (co1\<lparr>autoEnabled := False\<rparr>)),
                  denv := env1,
                  replies := replies w @ [AutoReply False (Some ''nfcNotConnected'')]\<rparr>
            | (Inr svc, co1, env1) \<Rightarrow>
                (let co2 = startAutoLoop co1 in
                 case getCurrentUID svc of
                   Some u \<Rightarrow>
                     if \<not> isBusy co2
                     then (case op_begin svc of
                             (Some err, svc1) \<Rightarrow>
                               w\<lparr>coord := (sendAutoStatus
                                              \<lparr>present = True, tagData = None,
                                               error = Some (message_or_String err)\<rparr>
                                              (co2\<lparr>isBusy := True, nfcService := Some svc1\<rparr>))
                                           \<lparr>isBusy := False\<rparr>,
                                 denv := env1, replies := replies w @ [AutoReply True None]\<rparr>
                           | (None, svc1) \<Rightarrow>
                               w\<lparr>coord := co2\<lparr>isBusy := True, nfcService := Some svc1\<rparr>,
                                 denv := env1, flights := flights w @ [AutoRead u]\<rparr>)
                     else w\<lparr>coord := co2, denv := env1, replies := replies w @ [AutoReply True None]\<rparr>
                 | None \<Rightarrow>
                     w\<lparr>coord := co2, denv := env1, replies := replies w @ [AutoReply True None]\<rparr>))
      else w\<lparr>coord := sendAutoStatus \<lparr>present = False, tagData = None, error = None\<rparr> (stopAutoLoop co0),
             replies := replies w @ [AutoReply False None]\<rparr>)"

text \<open>The rest of the handler \<^verbatim>\<open>rfid-auto\<close>, lines 238-247.\<close>

definition auto_end :: "string \<Rightarrow> outcome \<Rightarrow> 'd world \<Rightarrow> 'd world" where
  "auto_end u oc w =
     (case oc of
        Rejected err \<Rightarrow>
          w\<lparr>coord := (sendAutoStatus
                         \<lparr>present = True, tagData = None, error = Some (message_or_String err)\<rparr>
                         (release (coord w)))\<lparr>isBusy := False\<rparr>,
            replies := replies w @ [AutoReply True None]\<rparr>
      | ReadDone rec \<Rightarrow>
          w\<lparr>coord := tick_read_done u rec (release (coord w)),
            replies := replies w @ [AutoReply True None]\<rparr>
      | WriteDone \<Rightarrow> w)"

text \<open>The timer of lines 112-114, which tries a construction that is not forced.\<close>

definition init_timer :: "'d driver \<Rightarrow> int \<Rightarrow> 'd world \<Rightarrow> 'd world" where
  "init_timer drv now w =
     (case getNfcService drv False now (coord w) (denv w) of
        (res, co1, env1) \<Rightarrow> w\<lparr>coord := co1, denv := env1\<rparr>)"

text \<open>A driver event runs the handler of the session, when there is a session.\<close>

definition driver_event :: "int \<Rightarrow> driver_event \<Rightarrow> 'd world \<Rightarrow> 'd world" where
  "driver_event now ev w =
     w\<lparr>coord := (coord w)\<lparr>nfcService := map_option (handle now ev) (nfcService (coord w))\<rparr>\<rparr>"

text \<open>A read settles with a record or a rejection, a write with success or a rejection.\<close>

fun fits :: "owner \<Rightarrow> outcome \<Rightarrow> bool" where
  "fits ow (Rejected err) = True"
| "fits ManualWrite WriteDone = True"
| "fits ManualWrite (ReadDone rec) = False"
| "fits ow (ReadDone rec) = True"
| "fits ow WriteDone = False"

fun settled :: "owner \<Rightarrow> outcome \<Rightarrow> 'd world \<Rightarrow> 'd world" where
  "settled ManualRead oc w = request_end ReadReply oc w"
| "settled ManualWrite oc w = request_end WriteReply oc w"
| "settled (TickRead u) oc w = tick_end u oc w"
| "settled (AutoRead u) oc w = auto_end u oc w"

text \<open>
  One step of the program. \<open>Settle i oc\<close> settles the sequence at position \<open>i\<close> of those
  in flight; it is no event of the program when there is no such sequence or when the
  outcome is not one of its kind.
\<close>

fun step :: "'d driver \<Rightarrow> event \<Rightarrow> 'd world \<Rightarrow> 'd world" where
  "step drv (ReqRead now) w = request_begin drv ManualRead ReadReply now w"
| "step drv (ReqWrite now) w = request_begin drv ManualWrite WriteReply now w"
| "step drv (ReqAuto now enable) w = auto_begin drv now enable w"
| "step drv (InitTimer now) w = init_timer drv now w"
| "step drv TimerTick w = tick_begin w"
| "step drv (Driver now ev) w = driver_event now ev w"
| "step drv (Settle i oc) w =
     (if i < length (flights w) \<and> fits (flights w ! i) oc
      then settled (flights w ! i) oc (w\<lparr>flights := take i (flights w) @ drop (Suc i) (flights w)\<rparr>)
      else w)"

definition run :: "'d driver \<Rightarrow> event list \<Rightarrow> 'd world \<Rightarrow> 'd world" where
  "run drv evs w = foldl (\<lambda>w e. step drv e w) w evs"

text \<open>
  Mutual exclusion: a sequence in flight is the only one, and while it is in flight the
  busy flag of the coordinator and the lock of the session are set.
\<close>

definition exclusive :: "'d world \<Rightarrow> bool" where
  "exclusive w \<longleftrightarrow>
     flights w = [] \<or>
     (length (flights w) = 1 \<and> isBusy (coord w) \<and>
      (\<exists>svc. nfcService (coord w) = Some svc \<and> busy svc))"

text \<open>The outcome with which a sequence settles, from what the driver calls returned.\<close>

definition outcome_of_read :: "jsval + TagRecord \<Rightarrow> outcome" where
  "outcome_of_read res = (case res of Inl e \<Rightarrow> Rejected e | Inr rec \<Rightarrow> ReadDone rec)"

definition outcome_of_write :: "jsval + bool \<Rightarrow> outcome" where
  "outcome_of_write res = (case res of Inl e \<Rightarrow> Rejected e | Inr ok \<Rightarrow> WriteDone)"

definition initial_world :: "'d \<Rightarrow> 'd world" where
  "initial_world d = \<lparr>coord = initial_coordinator, denv = (d, []), flights = [], replies = []\<rparr>"

section \<open>A simulated reader and tag\<close>

text \<open>
  A driver to run the model on: a tag that accepts the keys in \<open>accepted\<close> and keeps one
  block of memory. Reading returns the block, writing replaces it; the constructor throws
  \<open>ctor_error\<close> when it is set.
\<close>

record tag_sim =
  accepted :: "byte list list"
  memory :: "byte list"
  ctor_error :: "jsval option"

definition auth_error :: jsval where
  "auth_error = JError ''AuthenticationError'' ''Authentication operation failed''"

definition sim_driver :: "tag_sim driver" where
  "sim_driver =
     \<lparr>construct = (\<lambda>d. (ctor_error d, d)),
      authenticate = (\<lambda>r block kt key d. (if key \<in> set (accepted d) then Inr () else Inl auth_error, d)),
      read_block = (\<lambda>r block len bs d. (Inr (take len (memory d)), d)),
      write_block = (\<lambda>r block buf bs d. (Inr (), d\<lparr>memory := buf\<rparr>))\<rparr>"

definition blank_tag :: tag_sim where
  "blank_tag = \<lparr>accepted = [default_key], memory = replicate 16 0, ctor_error = None\<rparr>"

definition acr122u :: reader_obj where
  "acr122u = \<lparr>rname = ''ACR122U'', rcard = None, KEY_TYPE_A = None\<rparr>"

definition connected_session :: NFCService where
  "connected_session = handle 0 (OnReader 0 acr122u) new_NFCService"

text \<open>
  A driver keeps block 4: authenticating leaves the block as it is, a successful write of
  16 bytes to block 4 stores them, and a successful read of block 4 returns them.
\<close>

definition keeps_block :: "'d driver \<Rightarrow> ('d \<Rightarrow> byte list) \<Rightarrow> bool" where
  "keeps_block drv mem \<longleftrightarrow>
     (\<forall>r b kt key d. mem (snd (authenticate drv r b kt key d)) = mem d) \<and>
     (\<forall>r buf d. length buf = 16 \<and> fst (write_block drv r 4 buf 16 d) = Inr () \<longrightarrow>
        mem (snd (write_block drv r 4 buf 16 d)) = buf) \<and>
     (\<forall>r d data. fst (read_block drv r 4 16 16 d) = Inr data \<longrightarrow> data = mem d)"

definition vendor_tag :: tag_sim where
  "vendor_tag = \<lparr>accepted = [vendor_key], memory = replicate 16 0, ctor_error = None\<rparr>"

definition locked_tag :: tag_sim where
  "locked_tag = \<lparr>accepted = [], memory = replicate 16 0, ctor_error = None\<rparr>"

definition zero_manufacturer_tag :: tag_sim where
  "zero_manufacturer_tag =
     \<lparr>accepted = [default_key], memory = [5, 2, 0, 0, 0, 0, 0, 0, 0, 0, 0, 0, 0, 0, 0, 0],
      ctor_error = None\<rparr>"

definition no_service_error :: jsval where
  "no_service_error = JError ''Error'' ''SCARD_E_NO_SERVICE''"

definition broken_driver_state :: tag_sim where
  "broken_driver_state = \<lparr>accepted = [], memory = [], ctor_error = Some no_service_error\<rparr>"

definition failed_coordinator :: coordinator where
  "failed_coordinator =
     initial_coordinator\<lparr>nfcInitFailedAt := 1000, nfcInitLastErr := Some no_service_error\<rparr>"

definition ready_coordinator :: coordinator where
  "ready_coordinator = initial_coordinator\<lparr>nfcService := Some connected_session\<rparr>"

definition session_with_card :: NFCService where
  "session_with_card = handle 0 (OnCard 0 (Some \<lparr>uid = Some ''04A1''\<rparr>)) connected_session"

definition watching_coordinator :: coordinator where
  "watching_coordinator = ready_coordinator\<lparr>autoEnabled := True, autoLoop := True\<rparr>"

text \<open>
  A sample run: a read request before any reader is attached, a reader and a card, the
  auto-detect request, whose read is in flight when a tick and two manual requests arrive,
  the end of that read, a tick, a write request, and a tick while the write is in flight.
\<close>

definition sample_record :: TagRecord where
  "sample_record =
     \<lparr>material = 5, color = 2, manufacturer = 1,
      rawData = [5, 2, 1, 0, 0, 0, 0, 0, 0, 0, 0, 0, 0, 0, 0, 0]\<rparr>"

definition sample_events :: "event list" where
  "sample_events =
     [ReqRead 10, Driver 20 (OnReader 0 acr122u), Driver 30 (OnCard 0 (Some \<lparr>uid = Some ''04A1''\<rparr>)),
      ReqAuto 40 True, TimerTick, ReqRead 50, ReqWrite 55, Settle 0 (ReadDone sample_record),
      TimerTick, ReqWrite 60, TimerTick]"

section \<open>Properties of the session events\<close>

lemma cardHandle_setError [simp]: "cardHandle (setError now err svc) = cardHandle svc"
  by (simp add: setError_def cardHandle_def Let_def split: option.split)

lemma lastUID_setError [simp]: "lastUID (setError now err svc) = lastUID svc"
  by (simp add: setError_def Let_def)

text \<open>
  C6, as the code has it: a card, card-removed, reader-end, reader-error or global-error
  event keeps the invariant, provided a card or card-removed event comes from the current
  reader and an inserted card carries a non-empty UID.
\<close>

theorem card_uid_inv_preserved:
  assumes "card_uid_inv svc" and "session_event ev" and "from_current svc ev" and "carries_uid ev"
  shows "card_uid_inv (handle now ev svc)"
proof (cases ev)
  case (OnCard r c)
  with assms show ?thesis
    by (cases c) (auto simp: card_uid_inv_def cardHandle_def set_card_def card_uid_or_null_def)
next
  case (OnCardOff r)
  with assms show ?thesis
    by (simp add: card_uid_inv_def cardHandle_def set_card_def)
next
  case (OnReaderError r err)
  with assms show ?thesis by (simp add: card_uid_inv_def)
next
  case (OnReaderEnd r)
  then show ?thesis by (simp add: card_uid_inv_def cardHandle_def)
next
  case (OnNfcError err)
  then show ?thesis by (simp add: card_uid_inv_def, simp add: cardHandle_def)
next
  case (OnReader r obj)
  with assms show ?thesis by simp
qed

text \<open>
  C6 as stated fails: on a session holding a reader, where the invariant holds, a card
  event whose card has no UID leaves the card handle present and the UID absent.
\<close>

theorem card_uid_inv_counterexample:
  "card_uid_inv connected_session \<and>
   \<not> card_uid_inv (handle 0 (OnCard 0 (Some \<lparr>uid = None\<rparr>)) connected_session)"
  by (simp add: card_uid_inv_def cardHandle_def set_card_def card_uid_or_null_def setError_def
      new_NFCService_def connected_session_def acr122u_def)

theorem card_uid_inv_preserved_witness:
  "card_uid_inv connected_session \<and>
   session_event (OnCard 0 (Some \<lparr>uid = Some ''04A1''\<rparr>)) \<and>
   from_current connected_session (OnCard 0 (Some \<lparr>uid = Some ''04A1''\<rparr>)) \<and>
   carries_uid (OnCard 0 (Some \<lparr>uid = Some ''04A1''\<rparr>)) \<and>
   card_uid_inv (handle 7 (OnCard 0 (Some \<lparr>uid = Some ''04A1''\<rparr>)) connected_session)"
  using card_uid_inv_preserved [of connected_session "OnCard 0 (Some \<lparr>uid = Some ''04A1''\<rparr>)" 7]
  by (simp add: card_uid_inv_def cardHandle_def set_card_def card_uid_or_null_def setError_def
      new_NFCService_def connected_session_def acr122u_def)

section \<open>Properties of the authenticated operations\<close>

subsection \<open>Auxiliary facts\<close>

lemma try_keys_two:
  "try_keys drv r block kt [k1, k2] e0 (d, cs) =
     (case authenticate drv r block kt k1 d of
        (Inr u, d1) \<Rightarrow> (Inr True, (d1, cs @ [Authenticate r block kt k1]))
      | (Inl e1, d1) \<Rightarrow>
          (case authenticate drv r block kt k2 d1 of
             (Inr u, d2) \<Rightarrow> (Inr True, (d2, cs @ [Authenticate r block kt k1, Authenticate r block kt k2]))
           | (Inl e2, d2) \<Rightarrow>
               (Inl (if truthy e2 then e2 else new_Error ''NFC_AUTH_FAILED''),
                (d2, cs @ [Authenticate r block kt k1, Authenticate r block kt k2]))))"
  by (simp add: call_authenticate_def split: prod.split sum.split)

lemma authenticateBlock_busy [simp]:
  "authenticateBlock drv (svc\<lparr>busy := b\<rparr>) block env = authenticateBlock drv svc block env"
  by (simp add: authenticateBlock_def split: option.split)

lemma trunc_of_int: "trunc (of_int k) = k"
  by (simp add: trunc_def)

lemma trunc_numeral [simp]:
  "trunc (numeral n) = numeral n" "trunc (- numeral n) = - numeral n"
  "trunc 0 = 0" "trunc 1 = 1" "trunc (- 1) = - 1"
  using trunc_of_int [of "numeral n"] trunc_of_int [of "- numeral n"] trunc_of_int [of 0]
    trunc_of_int [of 1] trunc_of_int [of "- 1"] by simp_all

lemma unat_byte_of_int: "unat (word_of_int k :: byte) = nat (k mod 256)"
  by (simp add: unat_eq_nat_uint uint_word_of_int)

lemma ToUint8_num_or_0: "ToUint8 (num_or x (Fin 0)) = ToUint8 x"
  by (cases x) (simp_all add: num_or_def)

lemma tag_buffer_eq:
  "tag_buffer m c mf =
     [ToUint8 (num_or m (Fin 0)), ToUint8 (num_or c (Fin 0)),
      ToUint8 (num_or (case mf of None \<Rightarrow> Fin 1 | Some x \<Rightarrow> x) (Fin 1)),
      0, 0, 0, 0, 0, 0, 0, 0, 0, 0, 0, 0, 0]"
  by (simp add: tag_buffer_def numeral_eq_Suc)

lemma length_tag_buffer: "length (tag_buffer m c mf) = 16"
  by (simp add: tag_buffer_def)

lemma decodeTag_16:
  assumes "length data = 16"
  shows "material (decodeTag data) = unat (data ! 0)"
    and "color (decodeTag data) = unat (data ! 1)"
    and "manufacturer (decodeTag data) = (if data ! 2 = 0 then 1 else unat (data ! 2))"
    and "rawData (decodeTag data) = map unat data"
  using assms by (simp_all add: decodeTag_def buf_get_def byte_or_def)

text \<open>What a successful write and a successful read have done.\<close>

lemma writeTag_ok:
  assumes "fst (writeTag drv m c mf svc env) = Inr ok'"
  shows "\<exists>r ok env1 d2. currentReader svc = Some r \<and> \<not> busy svc \<and>
           authenticateBlock drv svc 4 env = (Inr ok, env1) \<and>
           write_block drv r 4 (tag_buffer m c mf) 16 (fst env1) = (Inr (), d2) \<and>
           writeTag drv m c mf svc env =
             (Inr True, svc\<lparr>busy := False\<rparr>, (d2, snd env1 @ [Write r 4 (tag_buffer m c mf) 16]))"
  using assms
  by (auto simp: writeTag_def write_sequence_def withLock_def call_write_def Let_def
      split: if_splits prod.splits sum.splits option.splits)

lemma readTag_ok:
  assumes "fst (readTag drv svc env) = Inr rec"
  shows "\<exists>r ok env1 data d2. currentReader svc = Some r \<and> \<not> busy svc \<and>
           authenticateBlock drv svc 4 env = (Inr ok, env1) \<and>
           read_block drv r 4 16 16 (fst env1) = (Inr data, d2) \<and>
           rec = decodeTag data \<and>
           readTag drv svc env =
             (Inr rec, svc\<lparr>busy := False\<rparr>, (d2, snd env1 @ [Read r 4 16 16]))"
  using assms
  by (auto simp: readTag_def read_sequence_def withLock_def call_read_def Let_def
      split: if_splits prod.splits sum.splits option.splits)

text \<open>Authentication leaves the block of a block-keeping driver alone.\<close>

lemma try_keys_mem:
  assumes "keeps_block drv mem" and "try_keys drv r b kt keys e env = (res, env')"
  shows "mem (fst env') = mem (fst env)"
  using assms(2)
proof (induction keys arbitrary: e env)
  case Nil
  then show ?case by simp
next
  case (Cons key keys)
  obtain res1 d1 where a: "authenticate drv r b kt key (fst env) = (res1, d1)"
    by (cases "authenticate drv r b kt key (fst env)")
  have m: "mem d1 = mem (fst env)"
    using assms(1) a by (metis keeps_block_def snd_conv)
  show ?case
  proof (cases res1)
    case (Inl e1)
    with Cons.prems a
    have "try_keys drv r b kt keys e1 (d1, snd env @ [Authenticate r b kt key]) = (res, env')"
      by (simp add: call_authenticate_def)
    from Cons.IH [OF this] m show ?thesis by simp
  next
    case (Inr u)
    with Cons.prems a have "env' = (d1, snd env @ [Authenticate r b kt key])"
      by (simp add: call_authenticate_def)
    with m show ?thesis by simp
  qed
qed

lemma authenticateBlock_mem:
  assumes "keeps_block drv mem" and "authenticateBlock drv svc b env = (res, env')"
  shows "mem (fst env') = mem (fst env)"
  using assms by (auto simp: authenticateBlock_def split: option.splits dest: try_keys_mem)

lemma sim_keeps_block: "keeps_block sim_driver (\<lambda>d. take 16 (memory d))"
  by (simp add: keeps_block_def sim_driver_def)

text \<open>The definitions that a run on the simulated reader unfolds.\<close>

lemmas run_defs = writeTag_def readTag_def write_sequence_def read_sequence_def withLock_def
  authenticateBlock_def auth_keys_def call_authenticate_def call_read_def call_write_def
  call_construct_def key_type_a_def vendor_key_def default_key_def new_Error_def setError_def
  new_NFCService_def tag_buffer_eq decodeTag_def buf_get_def byte_or_def num_or_def Let_def

text \<open>The simulated reader, a blank tag on it, and a session that holds the reader.\<close>

lemmas sim_defs = sim_driver_def auth_error_def blank_tag_def acr122u_def connected_session_def

subsection \<open>Key order of the authentication\<close>

text \<open>
  With a reader present, \<open>authenticateBlock\<close> calls the driver with the vendor key
  first, with the key type A of the reader. When that call succeeds the operation
  succeeds and no further call is made. When it fails, the factory-default key is tried
  with the same key type; its success is the operation's success. When both fail the
  operation fails with the error of the second call (with the error
  \<^verbatim>\<open>NFC_AUTH_FAILED\<close> in its place only if that value is falsy), and no third
  call is made.
\<close>

lemma authenticateBlock_key_order:
  assumes "currentReader svc = Some r"
  shows "(authenticate drv r block (key_type_a (readers svc r)) vendor_key d = (Inr (), d1) \<longrightarrow>
            authenticateBlock drv svc block (d, cs) =
              (Inr True, (d1, cs @ [Authenticate r block (key_type_a (readers svc r)) vendor_key]))) \<and>
         (authenticate drv r block (key_type_a (readers svc r)) vendor_key d = (Inl e1, d1) \<and>
          authenticate drv r block (key_type_a (readers svc r)) default_key d1 = (Inr (), d2) \<longrightarrow>
            authenticateBlock drv svc block (d, cs) =
              (Inr True, (d2, cs @ [Authenticate r block (key_type_a (readers svc r)) vendor_key,
                                    Authenticate r block (key_type_a (readers svc r)) default_key]))) \<and>
         (authenticate drv r block (key_type_a (readers svc r)) vendor_key d = (Inl e1, d1) \<and>
          authenticate drv r block (key_type_a (readers svc r)) default_key d1 = (Inl e2, d2) \<longrightarrow>
            authenticateBlock drv svc block (d, cs) =
              (Inl (if truthy e2 then e2 else new_Error ''NFC_AUTH_FAILED''),
               (d2, cs @ [Authenticate r block (key_type_a (readers svc r)) vendor_key,
                          Authenticate r block (key_type_a (readers svc r)) default_key]))) \<and>
         length vendor_key = 6 \<and> length default_key = 6 \<and>
         (KEY_TYPE_A (readers svc r) = None \<longrightarrow> key_type_a (readers svc r) = 0x60)"
  using assms
  by (simp add: authenticateBlock_def auth_keys_def try_keys_two vendor_key_def default_key_def
      key_type_a_def del: try_keys.simps)

text \<open>The three cases on the simulated reader.\<close>

lemma authenticateBlock_key_order_example:
  "currentReader connected_session = Some 0 \<and>
   authenticate sim_driver 0 4 0x60 vendor_key vendor_tag = (Inr (), vendor_tag) \<and>
   authenticateBlock sim_driver connected_session 4 (vendor_tag, []) =
     (Inr True, (vendor_tag, [Authenticate 0 4 0x60 vendor_key])) \<and>
   authenticate sim_driver 0 4 0x60 vendor_key blank_tag = (Inl auth_error, blank_tag) \<and>
   authenticate sim_driver 0 4 0x60 default_key blank_tag = (Inr (), blank_tag) \<and>
   authenticateBlock sim_driver connected_session 4 (blank_tag, []) =
     (Inr True, (blank_tag, [Authenticate 0 4 0x60 vendor_key, Authenticate 0 4 0x60 default_key])) \<and>
   authenticate sim_driver 0 4 0x60 vendor_key locked_tag = (Inl auth_error, locked_tag) \<and>
   authenticate sim_driver 0 4 0x60 default_key locked_tag = (Inl auth_error, locked_tag) \<and>
   authenticateBlock sim_driver connected_session 4 (locked_tag, []) =
     (Inl auth_error, (locked_tag, [Authenticate 0 4 0x60 vendor_key, Authenticate 0 4 0x60 default_key]))"
  using authenticateBlock_key_order [where svc = connected_session and r = 0 and drv = sim_driver
      and block = 4 and d = vendor_tag and ?d1.0 = vendor_tag and ?d2.0 = vendor_tag and cs = "[]"
      and ?e1.0 = auth_error and ?e2.0 = auth_error]
    authenticateBlock_key_order [where svc = connected_session and r = 0 and drv = sim_driver
      and block = 4 and d = blank_tag and ?d1.0 = blank_tag and ?d2.0 = blank_tag and cs = "[]"
      and ?e1.0 = auth_error and ?e2.0 = auth_error]
    authenticateBlock_key_order [where svc = connected_session and r = 0 and drv = sim_driver
      and block = 4 and d = locked_tag and ?d1.0 = locked_tag and ?d2.0 = locked_tag and cs = "[]"
      and ?e1.0 = auth_error and ?e2.0 = auth_error]
  by (simp add: run_defs sim_defs vendor_tag_def locked_tag_def)

text \<open>
  C2 on a tag that rejects both keys, where the claim has the operation fail with
  \<^verbatim>\<open>AuthFailed\<close> carrying the last underlying error. The two keys are tried in the
  order of the claim, with key type A, and then line 104 throws the driver's error of
  the second attempt itself: the failure is not the error \<^verbatim>\<open>NFC_AUTH_FAILED\<close>, its
  message is the driver's, and \<open>toMessageKey\<close>, which knows the authentication failure
  by the message \<^verbatim>\<open>NFC_AUTH_FAILED\<close>, gives it the key \<^verbatim>\<open>unknownError\<close>.
\<close>

theorem authenticateBlock_both_keys_rejected:
  "authenticateBlock sim_driver connected_session 4 (locked_tag, []) =
     (Inl (JError ''AuthenticationError'' ''Authentication operation failed''),
      (locked_tag, [Authenticate 0 4 0x60 vendor_key, Authenticate 0 4 0x60 default_key])) \<and>
   fst (authenticateBlock sim_driver connected_session 4 (locked_tag, [])) \<noteq>
     Inl (new_Error ''NFC_AUTH_FAILED'') \<and>
   toMessageKey (new_Error ''NFC_AUTH_FAILED'') = ''nfcAuthFailed'' \<and>
   toMessageKey (JError ''AuthenticationError'' ''Authentication operation failed'') = ''unknownError''"
  by (simp add: run_defs sim_defs locked_tag_def toMessageKey_def)


subsection \<open>Decoding a block that was read\<close>

text \<open>
  C4 as stated fails: a tag whose block is \<open>5, 2, 0, 0, ...\<close> has its third byte present
  and equal to zero, and \<open>readTag\<close> returns manufacturer 1 for it all the same.
\<close>

theorem readTag_zero_manufacturer_counterexample:
  "fst (readTag sim_driver connected_session (zero_manufacturer_tag, [])) =
     Inr \<lparr>material = 5, color = 2, manufacturer = 1,
          rawData = [5, 2, 0, 0, 0, 0, 0, 0, 0, 0, 0, 0, 0, 0, 0, 0]\<rparr>"
  by (simp add: run_defs sim_defs zero_manufacturer_tag_def)

text \<open>
  C4, as the code has it: a successful \<open>readTag\<close> returns the bytes the driver delivered
  for block 4 as the raw data, and on a 16-byte block byte 0 as the material, byte 1 as
  the color and byte 2 as the manufacturer, with 1 in its place when byte 2 is zero.
\<close>

theorem readTag_decodes:
  assumes "fst (readTag drv svc env) = Inr rec"
  shows "\<exists>r d d' data. read_block drv r 4 16 16 d = (Inr data, d') \<and>
           rawData rec = map unat data \<and>
           (length data = 16 \<longrightarrow>
              material rec = unat (data ! 0) \<and> color rec = unat (data ! 1) \<and>
              manufacturer rec = (if data ! 2 = 0 then 1 else unat (data ! 2)))"
proof -
  from readTag_ok [OF assms] obtain r and ok :: bool and env1 data d2 where
    "authenticateBlock drv svc 4 env = (Inr ok, env1)" and
    rb: "read_block drv r 4 16 16 (fst env1) = (Inr data, d2)" and rec: "rec = decodeTag data"
    by blast
  have "rawData rec = map unat data"
    using rec by (simp add: decodeTag_def)
  moreover have "length data = 16 \<longrightarrow>
      material rec = unat (data ! 0) \<and> color rec = unat (data ! 1) \<and>
      manufacturer rec = (if data ! 2 = 0 then 1 else unat (data ! 2))"
    using rec by (simp add: decodeTag_16)
  ultimately show ?thesis using rb by blast
qed

theorem readTag_decodes_witness:
  "fst (readTag sim_driver connected_session (zero_manufacturer_tag, [])) =
     Inr \<lparr>material = 5, color = 2, manufacturer = 1,
          rawData = [5, 2, 0, 0, 0, 0, 0, 0, 0, 0, 0, 0, 0, 0, 0, 0]\<rparr> \<and>
   (\<exists>r d d' data. read_block sim_driver r 4 16 16 d = (Inr data, d') \<and>
      [5, 2, 0, 0, 0, 0, 0, 0, 0, 0, 0, 0, 0, 0, 0, 0] = map unat data \<and>
      (length data = 16 \<longrightarrow>
         5 = unat (data ! 0) \<and> 2 = unat (data ! 1) \<and>
         1 = (if data ! 2 = 0 then 1 else unat (data ! 2))))"
proof -
  have run: "fst (readTag sim_driver connected_session (zero_manufacturer_tag, [])) =
     Inr \<lparr>material = 5, color = 2, manufacturer = 1,
          rawData = [5, 2, 0, 0, 0, 0, 0, 0, 0, 0, 0, 0, 0, 0, 0, 0]\<rparr>"
    by (simp add: run_defs sim_defs zero_manufacturer_tag_def)
  from readTag_decodes [OF run] run show ?thesis by simp
qed

subsection \<open>Writing and reading back\<close>

text \<open>
  C9: on a driver that keeps block 4, a successful \<open>writeTag\<close> of material 5, color 2,
  manufacturer 1, followed by a successful \<open>readTag\<close>, returns these three fields and a raw
  block that starts with 5, 2, 1 and is zero in bytes 3 to 15.
\<close>

theorem write_read_roundtrip:
  assumes keeps: "keeps_block drv mem"
    and wr: "writeTag drv (Fin 5) (Fin 2) (Some (Fin 1)) svc env = (Inr True, svc1, env1)"
    and rd: "readTag drv svc1 env1 = (Inr rec, svc2, env2)"
  shows "rec = \<lparr>material = 5, color = 2, manufacturer = 1,
                rawData = [5, 2, 1, 0, 0, 0, 0, 0, 0, 0, 0, 0, 0, 0, 0, 0]\<rparr>"
proof -
  let ?buf = "tag_buffer (Fin 5) (Fin 2) (Some (Fin 1))"
  from wr have "fst (writeTag drv (Fin 5) (Fin 2) (Some (Fin 1)) svc env) = Inr True" by simp
  from writeTag_ok [OF this] wr obtain r envA d2 where
    w: "write_block drv r 4 ?buf 16 (fst envA) = (Inr (), d2)"
    and e1: "env1 = (d2, snd envA @ [Write r 4 ?buf 16])"
    by auto
  have "length ?buf = 16" by (rule length_tag_buffer)
  with keeps w have m1: "mem (fst env1) = ?buf"
    unfolding keeps_block_def e1 by (metis fst_conv snd_conv)
  from rd have "fst (readTag drv svc1 env1) = Inr rec" by simp
  from readTag_ok [OF this] obtain r' ok' envB data d3 where
    a: "authenticateBlock drv svc1 4 env1 = (Inr ok', envB)"
    and rb: "read_block drv r' 4 16 16 (fst envB) = (Inr data, d3)"
    and rec: "rec = decodeTag data"
    by blast
  from authenticateBlock_mem [OF keeps a] m1 have "mem (fst envB) = ?buf" by simp
  moreover from keeps rb have "data = mem (fst envB)"
    unfolding keeps_block_def by (metis fst_conv)
  ultimately have "data = ?buf" by simp
  with rec show ?thesis
    by (simp add: decodeTag_def tag_buffer_eq num_or_def buf_get_def byte_or_def)
qed

theorem write_read_roundtrip_witness:
  "keeps_block sim_driver (\<lambda>d. take 16 (memory d)) \<and>
   writeTag sim_driver (Fin 5) (Fin 2) (Some (Fin 1)) connected_session (blank_tag, []) =
     (Inr True, connected_session,
      (blank_tag\<lparr>memory := [5, 2, 1, 0, 0, 0, 0, 0, 0, 0, 0, 0, 0, 0, 0, 0]\<rparr>,
       [Authenticate 0 4 0x60 vendor_key, Authenticate 0 4 0x60 default_key,
        Write 0 4 [5, 2, 1, 0, 0, 0, 0, 0, 0, 0, 0, 0, 0, 0, 0, 0] 16])) \<and>
   readTag sim_driver connected_session
      (blank_tag\<lparr>memory := [5, 2, 1, 0, 0, 0, 0, 0, 0, 0, 0, 0, 0, 0, 0, 0]\<rparr>,
       [Authenticate 0 4 0x60 vendor_key, Authenticate 0 4 0x60 default_key,
        Write 0 4 [5, 2, 1, 0, 0, 0, 0, 0, 0, 0, 0, 0, 0, 0, 0, 0] 16]) =
     (Inr \<lparr>material = 5, color = 2, manufacturer = 1,
           rawData = [5, 2, 1, 0, 0, 0, 0, 0, 0, 0, 0, 0, 0, 0, 0, 0]\<rparr>,
      connected_session,
      (blank_tag\<lparr>memory := [5, 2, 1, 0, 0, 0, 0, 0, 0, 0, 0, 0, 0, 0, 0, 0]\<rparr>,
       [Authenticate 0 4 0x60 vendor_key, Authenticate 0 4 0x60 default_key,
        Write 0 4 [5, 2, 1, 0, 0, 0, 0, 0, 0, 0, 0, 0, 0, 0, 0, 0] 16,
        Authenticate 0 4 0x60 vendor_key, Authenticate 0 4 0x60 default_key,
        Read 0 4 16 16]))"
proof -
  let ?env1 = "(blank_tag\<lparr>memory := [5, 2, 1, 0, 0, 0, 0, 0, 0, 0, 0, 0, 0, 0, 0, 0]\<rparr>,
       [Authenticate 0 4 0x60 vendor_key, Authenticate 0 4 0x60 default_key,
        Write 0 4 [5, 2, 1, 0, 0, 0, 0, 0, 0, 0, 0, 0, 0, 0, 0, 0] 16])"
  have wr: "writeTag sim_driver (Fin 5) (Fin 2) (Some (Fin 1)) connected_session (blank_tag, []) =
     (Inr True, connected_session, ?env1)"
    by (simp add: run_defs sim_defs)
  obtain rec env2 where rd: "readTag sim_driver connected_session ?env1 = (Inr rec, connected_session, env2)"
    and e2: "env2 = (fst ?env1, snd ?env1 @ [Authenticate 0 4 0x60 vendor_key,
        Authenticate 0 4 0x60 default_key, Read 0 4 16 16])"
    by (simp add: run_defs sim_defs)
  from write_read_roundtrip [OF sim_keeps_block wr rd] rd e2 wr sim_keeps_block
  show ?thesis by simp
qed

subsection \<open>Bytes written for out-of-range and non-numeric codes\<close>

text \<open>
  C10: \<open>writeTag\<close> looks at its three codes only through the buffer it builds from them,
  so it treats a code outside 0..255 as it treats the byte that code is stored as; a
  successful \<open>writeTag\<close> has handed that buffer of 16 bytes to the driver's write of block 4.
  In the buffer, a finite code below 0 or above 255 is stored truncated towards zero and
  reduced modulo 256, in each of the three positions; a code that is not a number is
  stored as 0 for material and color and as 1 for the manufacturer.
\<close>

theorem writeTag_no_range_check:
  "(tag_buffer m c mf = tag_buffer m' c' mf' \<longrightarrow>
      writeTag drv m c mf svc env = writeTag drv m' c' mf' svc env) \<and>
   (fst (writeTag drv m c mf svc env) = Inr True \<longrightarrow>
      (\<exists>r. last (snd (snd (snd (writeTag drv m c mf svc env)))) = Write r 4 (tag_buffer m c mf) 16)) \<and>
   length (tag_buffer m c mf) = 16 \<and>
   (\<forall>q. m = Fin q \<and> (q < 0 \<or> 255 < q) \<longrightarrow> unat (tag_buffer m c mf ! 0) = nat (trunc q mod 256)) \<and>
   (\<forall>q. c = Fin q \<and> (q < 0 \<or> 255 < q) \<longrightarrow> unat (tag_buffer m c mf ! 1) = nat (trunc q mod 256)) \<and>
   (\<forall>q. mf = Some (Fin q) \<and> (q < 0 \<or> 255 < q) \<longrightarrow>
      unat (tag_buffer m c mf ! 2) = nat (trunc q mod 256)) \<and>
   (m = NaN \<longrightarrow> tag_buffer m c mf ! 0 = 0) \<and>
   (c = NaN \<longrightarrow> tag_buffer m c mf ! 1 = 0) \<and>
   (mf = Some NaN \<longrightarrow> tag_buffer m c mf ! 2 = 1)"
proof -
  have "tag_buffer m c mf = tag_buffer m' c' mf' \<longrightarrow>
      writeTag drv m c mf svc env = writeTag drv m' c' mf' svc env"
  proof
    assume eq: "tag_buffer m c mf = tag_buffer m' c' mf'"
    show "writeTag drv m c mf svc env = writeTag drv m' c' mf' svc env"
      unfolding writeTag_def write_sequence_def Let_def eq by (rule refl)
  qed
  moreover have "fst (writeTag drv m c mf svc env) = Inr True \<longrightarrow>
      (\<exists>r. last (snd (snd (snd (writeTag drv m c mf svc env)))) = Write r 4 (tag_buffer m c mf) 16)"
  proof
    assume "fst (writeTag drv m c mf svc env) = Inr True"
    from writeTag_ok [OF this] show
      "\<exists>r. last (snd (snd (snd (writeTag drv m c mf svc env)))) = Write r 4 (tag_buffer m c mf) 16"
      by auto
  qed
  moreover have "\<forall>q. m = Fin q \<and> (q < 0 \<or> 255 < q) \<longrightarrow>
      unat (tag_buffer m c mf ! 0) = nat (trunc q mod 256)"
    by (auto simp: tag_buffer_eq ToUint8_num_or_0 unat_byte_of_int)
  moreover have "\<forall>q. c = Fin q \<and> (q < 0 \<or> 255 < q) \<longrightarrow>
      unat (tag_buffer m c mf ! 1) = nat (trunc q mod 256)"
    by (auto simp: tag_buffer_eq ToUint8_num_or_0 unat_byte_of_int)
  moreover have "\<forall>q. mf = Some (Fin q) \<and> (q < 0 \<or> 255 < q) \<longrightarrow>
      unat (tag_buffer m c mf ! 2) = nat (trunc q mod 256)"
    by (auto simp: tag_buffer_eq num_or_def unat_byte_of_int)
  moreover have "m = NaN \<longrightarrow> tag_buffer m c mf ! 0 = 0"
    by (simp add: tag_buffer_eq num_or_def)
  moreover have "c = NaN \<longrightarrow> tag_buffer m c mf ! 1 = 0"
    by (simp add: tag_buffer_eq num_or_def)
  moreover have "mf = Some NaN \<longrightarrow> tag_buffer m c mf ! 2 = 1"
    by (simp add: tag_buffer_eq num_or_def)
  ultimately show ?thesis by (simp add: length_tag_buffer)
qed


theorem writeTag_no_range_check_witness:
  "tag_buffer (Fin 300) NaN (Some (Fin (- 1))) = tag_buffer (Fin 44) (Fin 0) (Some (Fin 255)) \<and>
   writeTag sim_driver (Fin 300) NaN (Some (Fin (- 1))) connected_session (blank_tag, []) =
     writeTag sim_driver (Fin 44) (Fin 0) (Some (Fin 255)) connected_session (blank_tag, []) \<and>
   fst (writeTag sim_driver (Fin 300) NaN (Some (Fin (- 1))) connected_session (blank_tag, [])) = Inr True \<and>
   last (snd (snd (snd (writeTag sim_driver (Fin 300) NaN (Some (Fin (- 1))) connected_session
      (blank_tag, []))))) = Write 0 4 [44, 0, 255, 0, 0, 0, 0, 0, 0, 0, 0, 0, 0, 0, 0, 0] 16 \<and>
   ((300 :: rat) < 0 \<or> (255 :: rat) < 300) \<and>
   unat (tag_buffer (Fin 300) NaN (Some (Fin (- 1))) ! 0) = 44 \<and>
   tag_buffer (Fin 300) NaN (Some (Fin (- 1))) ! 1 = 0 \<and>
   unat (tag_buffer (Fin 300) NaN (Some (Fin (- 1))) ! 2) = 255 \<and>
   tag_buffer NaN NaN (Some NaN) ! 2 = 1"
proof -
  have b: "tag_buffer (Fin 300) NaN (Some (Fin (- 1))) = [44, 0, 255, 0, 0, 0, 0, 0, 0, 0, 0, 0, 0, 0, 0, 0]"
    "tag_buffer (Fin 44) (Fin 0) (Some (Fin 255)) = [44, 0, 255, 0, 0, 0, 0, 0, 0, 0, 0, 0, 0, 0, 0, 0]"
    by (simp_all add: tag_buffer_eq num_or_def)
  have run: "writeTag sim_driver (Fin 300) NaN (Some (Fin (- 1))) connected_session (blank_tag, []) =
     (Inr True, connected_session,
      (blank_tag\<lparr>memory := [44, 0, 255, 0, 0, 0, 0, 0, 0, 0, 0, 0, 0, 0, 0, 0]\<rparr>,
       [Authenticate 0 4 0x60 vendor_key, Authenticate 0 4 0x60 default_key,
        Write 0 4 [44, 0, 255, 0, 0, 0, 0, 0, 0, 0, 0, 0, 0, 0, 0, 0] 16]))"
    by (simp add: run_defs sim_defs)
  have run44: "writeTag sim_driver (Fin 44) (Fin 0) (Some (Fin 255)) connected_session (blank_tag, []) =
     (Inr True, connected_session,
      (blank_tag\<lparr>memory := [44, 0, 255, 0, 0, 0, 0, 0, 0, 0, 0, 0, 0, 0, 0, 0]\<rparr>,
       [Authenticate 0 4 0x60 vendor_key, Authenticate 0 4 0x60 default_key,
        Write 0 4 [44, 0, 255, 0, 0, 0, 0, 0, 0, 0, 0, 0, 0, 0, 0, 0] 16]))"
    by (simp add: run_defs sim_defs)
  from writeTag_no_range_check [where m = "Fin 300" and c = NaN and mf = "Some (Fin (- 1))"
      and m' = "Fin 44" and c' = "Fin 0" and mf' = "Some (Fin 255)" and drv = sim_driver
      and svc = connected_session and env = "(blank_tag, [])"]
  have c1: "unat (tag_buffer (Fin 300) NaN (Some (Fin (- 1))) ! 0) = nat (trunc 300 mod 256)"
    by simp
  from writeTag_no_range_check [where m = NaN and c = NaN and mf = "Some NaN"
      and m' = NaN and c' = NaN and mf' = "Some NaN" and drv = sim_driver
      and svc = connected_session and env = "(blank_tag, [])"]
  have c2: "tag_buffer NaN NaN (Some NaN) ! 2 = 1"
    by simp
  from c1 c2 show ?thesis by (simp add: b run run44)
qed


section \<open>Properties of the request coordinator\<close>

subsection \<open>Construction backoff\<close>

text \<open>
  C8: with no session and a construction failure recorded at time \<open>t0\<close>, a request that
  is not forced and comes less than 5000 ms after \<open>t0\<close> fails with
  \<^verbatim>\<open>NFC_NOT_CONNECTED\<close>, changes nothing and calls no constructor. A forced request,
  or one that comes 5000 ms or more after \<open>t0\<close>, calls the constructor once; when the
  constructor succeeds the session is stored and the backoff state is cleared, and when it
  throws the request fails with \<^verbatim>\<open>NFC_NOT_CONNECTED\<close> and the failure is recorded with
  the time of the request.
\<close>

theorem getNfcService_backoff:
  assumes "nfcService co = None" and "nfcInitFailedAt co = t0" and "t0 \<noteq> 0"
  shows "(\<not> forceRetry \<and> now - t0 < 5000 \<longrightarrow>
            getNfcService drv forceRetry now co env = (Inl (new_Error ''NFC_NOT_CONNECTED''), co, env)) \<and>
         (forceRetry \<or> 5000 \<le> now - t0 \<longrightarrow>
            snd (snd (snd (getNfcService drv forceRetry now co env))) = snd env @ [Construct] \<and>
            (fst (construct drv (fst env)) = None \<longrightarrow>
               fst (getNfcService drv forceRetry now co env) = Inr new_NFCService \<and>
               fst (snd (getNfcService drv forceRetry now co env)) =
                 co\<lparr>nfcService := Some new_NFCService, nfcInitFailedAt := 0, nfcInitLastErr := None\<rparr>) \<and>
            (\<forall>e. fst (construct drv (fst env)) = Some e \<longrightarrow>
               fst (getNfcService drv forceRetry now co env) = Inl (new_Error ''NFC_NOT_CONNECTED'') \<and>
               fst (snd (getNfcService drv forceRetry now co env)) =
                 co\<lparr>nfcService := None, nfcInitFailedAt := now, nfcInitLastErr := Some e\<rparr>))"
  using assms
  by (auto simp: getNfcService_def NFC_RETRY_AFTER_MS_def call_construct_def split: prod.splits option.splits)

lemmas coord_defs = getNfcService_def NFC_RETRY_AFTER_MS_def initial_coordinator_def
  rfid_read_def rfid_write_def rfid_status_def tryGetNfcService_def failure_response_def
  busy_response_def toMessageKey_def message_or_String_def

text \<open>
  A first request at time 1000 on a driver whose constructor throws records the failure;
  a second, unforced request at 3000 is refused without a constructor call; an unforced
  request at 6000 and a forced one at 3000 call the constructor again.
\<close>

theorem getNfcService_backoff_witness:
  "getNfcService sim_driver False 1000 initial_coordinator (broken_driver_state, []) =
     (Inl (new_Error ''NFC_NOT_CONNECTED''), failed_coordinator, (broken_driver_state, [Construct])) \<and>
   nfcService failed_coordinator = None \<and> nfcInitFailedAt failed_coordinator = 1000 \<and>
   getNfcService sim_driver False 3000 failed_coordinator (broken_driver_state, [Construct]) =
     (Inl (new_Error ''NFC_NOT_CONNECTED''), failed_coordinator, (broken_driver_state, [Construct])) \<and>
   snd (snd (snd (getNfcService sim_driver False 6000 failed_coordinator
      (broken_driver_state, [Construct])))) = [Construct, Construct] \<and>
   snd (snd (snd (getNfcService sim_driver True 3000 failed_coordinator
      (broken_driver_state, [Construct])))) = [Construct, Construct] \<and>
   getNfcService sim_driver True 3000 failed_coordinator (blank_tag, [Construct]) =
     (Inr new_NFCService, initial_coordinator\<lparr>nfcService := Some new_NFCService\<rparr>,
      (blank_tag, [Construct, Construct]))"
  using getNfcService_backoff [where co = failed_coordinator and ?t0.0 = 1000 and forceRetry = False
      and now = 3000 and drv = sim_driver and env = "(broken_driver_state, [Construct])"]
    getNfcService_backoff [where co = failed_coordinator and ?t0.0 = 1000 and forceRetry = False
      and now = 6000 and drv = sim_driver and env = "(broken_driver_state, [Construct])"]
    getNfcService_backoff [where co = failed_coordinator and ?t0.0 = 1000 and forceRetry = True
      and now = 3000 and drv = sim_driver and env = "(blank_tag, [Construct])"]
  by (simp add: failed_coordinator_def broken_driver_state_def no_service_error_def coord_defs
      run_defs sim_defs)

subsection \<open>Message keys of failed requests\<close>

lemma toMessageKey_cases:
  "toMessageKey err = ''busy'' \<or> toMessageKey err = ''nfcNotConnected'' \<or>
   toMessageKey err = ''nfcAuthFailed'' \<or> toMessageKey err = ''unknownError''"
  by (simp add: toMessageKey_def Let_def)

lemma toMessageKey_Error:
  "toMessageKey (JError n msg) =
     (if msg = ''Busy'' then ''busy''
      else if msg = ''NFC_NOT_CONNECTED'' then ''nfcNotConnected''
      else if msg = ''NFC_AUTH_FAILED'' then ''nfcAuthFailed''
      else if msg = [] \<and> n = ''Busy'' then ''busy''
      else if msg = [] \<and> n = ''NFC_NOT_CONNECTED'' then ''nfcNotConnected''
      else if msg = [] \<and> n = ''NFC_AUTH_FAILED'' then ''nfcAuthFailed''
      else ''unknownError'')"
  by (simp add: toMessageKey_def Let_def)

text \<open>
  A read request that finds the coordinator free and whose session operation fails with
  \<open>err\<close> returns the structured failure for \<open>err\<close> and leaves the coordinator free.
\<close>

lemma rfid_read_failure:
  assumes "\<not> isBusy co"
    and "getNfcService drv True now (co\<lparr>isBusy := True\<rparr>) env = (Inr svc, co1, env1)"
    and "fst (readTag drv svc env1) = Inl err"
  shows "fst (rfid_read drv now co env) = failure_response err"
    and "\<not> isBusy (fst (snd (rfid_read drv now co env)))"
  using assms by (auto simp: rfid_read_def split: prod.splits sum.splits)

lemma rfid_write_failure:
  assumes "\<not> isBusy co"
    and "getNfcService drv True now (co\<lparr>isBusy := True\<rparr>) env = (Inr svc, co1, env1)"
    and "fst (writeTag drv m c (Some mf) svc env1) = Inl err"
  shows "fst (rfid_write drv now m c mf co env) = failure_response err"
    and "\<not> isBusy (fst (snd (rfid_write drv now m c mf co env)))"
  using assms by (auto simp: rfid_write_def split: prod.splits sum.splits)

text \<open>
  When the driver rejects both keys, the second time with an error object, the read fails
  with that error; its message decides the key, which is \<^verbatim>\<open>unknownError\<close> for every
  message but the three that \<open>toMessageKey\<close> knows.
\<close>

lemma readTag_both_keys_rejected:
  assumes "currentReader svc = Some r" and "\<not> busy svc"
    and "authenticate drv r 4 (key_type_a (readers svc r)) vendor_key d = (Inl e1, d1)"
    and "authenticate drv r 4 (key_type_a (readers svc r)) default_key d1 = (Inl e2, d2)"
  shows "fst (readTag drv svc (d, cs)) = Inl (if truthy e2 then e2 else new_Error ''NFC_AUTH_FAILED'')"
  using assms
  by (simp add: readTag_def withLock_def read_sequence_def authenticateBlock_def auth_keys_def
      try_keys_two del: try_keys.simps)

lemma rfid_read_both_keys_rejected_general:
  assumes "\<not> isBusy co" and "nfcService co = Some svc"
    and "currentReader svc = Some r" and "\<not> busy svc"
    and "authenticate drv r 4 (key_type_a (readers svc r)) vendor_key d = (Inl e1, d1)"
    and "authenticate drv r 4 (key_type_a (readers svc r)) default_key d1 = (Inl (JError n msg), d2)"
    and "msg \<noteq> []" and "msg \<noteq> ''Busy''" and "msg \<noteq> ''NFC_NOT_CONNECTED''"
    and "msg \<noteq> ''NFC_AUTH_FAILED''"
  shows "fst (rfid_read drv now co (d, cs)) =
           \<lparr>success = False, rdata = None, messageKey = Some ''unknownError'', details = Some msg\<rparr>"
proof -
  from assms(2) have g: "getNfcService drv True now (co\<lparr>isBusy := True\<rparr>) (d, cs) =
      (Inr svc, co\<lparr>isBusy := True\<rparr>, (d, cs))"
    by (simp add: getNfcService_def)
  from readTag_both_keys_rejected [OF assms(3,4,5,6), of cs]
  have "fst (readTag drv svc (d, cs)) = Inl (JError n msg)" by simp
  from rfid_read_failure(1) [OF assms(1) g this] assms(7-) show ?thesis
    by (simp add: failure_response_def toMessageKey_Error message_or_String_def)
qed

text \<open>
  C3 at a read request on a tag that rejects both keys: the request returns the key
  \<^verbatim>\<open>unknownError\<close> with the driver's message as detail, where the claim has
  \<^verbatim>\<open>nfcAuthFailed\<close>.
\<close>

theorem rfid_read_both_keys_rejected:
  "fst (rfid_read sim_driver 1000 ready_coordinator (locked_tag, [])) =
     \<lparr>success = False, rdata = None, messageKey = Some ''unknownError'',
      details = Some ''Authentication operation failed''\<rparr>"
  by (simp add: ready_coordinator_def locked_tag_def coord_defs run_defs sim_defs)

subsection \<open>Status without a session\<close>

text \<open>
  C7 as stated fails: with no session, the object that the status handler returns has
  four keys; the keys \<^verbatim>\<open>errorCode\<close>, \<^verbatim>\<open>errorMessage\<close> and \<^verbatim>\<open>errorAt\<close> are missing.
\<close>

theorem rfid_status_shape_counterexample:
  "map fst (fst (rfid_status sim_driver initial_coordinator (blank_tag, []))) =
     [''connected'', ''readerName'', ''cardPresent'', ''uid''] \<and>
   map_of (fst (rfid_status sim_driver initial_coordinator (blank_tag, []))) ''errorCode'' = None"
  by (simp add: coord_defs)

text \<open>
  C7, as the code has it: the status handler leaves the coordinator and the driver as they
  are and calls nothing, and with no session it returns the object
  \<^verbatim>\<open>{connected: false, readerName: null, cardPresent: false, uid: null}\<close>.
\<close>

theorem rfid_status_no_construction:
  "snd (rfid_status drv co env) = (co, env) \<and>
   (nfcService co = None \<longrightarrow>
      fst (rfid_status drv co env) =
        [(''connected'', FBool False), (''readerName'', FNull),
         (''cardPresent'', FBool False), (''uid'', FNull)])"
  by (simp add: rfid_status_def tryGetNfcService_def split: option.split)

theorem rfid_status_no_construction_witness:
  "snd (rfid_status sim_driver initial_coordinator (blank_tag, [])) = (initial_coordinator, (blank_tag, [])) \<and>
   nfcService initial_coordinator = None \<and>
   fst (rfid_status sim_driver initial_coordinator (blank_tag, [])) =
     [(''connected'', FBool False), (''readerName'', FNull),
      (''cardPresent'', FBool False), (''uid'', FNull)]"
  using rfid_status_no_construction [of sim_driver initial_coordinator "(blank_tag, [])"]
  by (simp add: initial_coordinator_def)

text \<open>The eager entry point constructs the session when its status handler runs.\<close>

lemma rfid_status_eager_constructs:
  "snd (snd (snd (rfid_status_eager sim_driver initial_coordinator (blank_tag, [])))) = [Construct]"
  by (simp add: rfid_status_eager_def getNfcService_eager_def call_construct_def sim_driver_def
      blank_tag_def initial_coordinator_def)


section \<open>Properties of the auto-detect loop\<close>

lemma getCurrentUID_nonempty: "getCurrentUID svc \<noteq> Some []"
  by (simp add: getCurrentUID_def split: option.split)

text \<open>
  \<open>tick_reads\<close> is the condition under which the timer callback calls \<open>readTag\<close>: when
  it holds the tick is the read followed by the \<^verbatim>\<open>try\<close> block of lines 153-161, and when
  it fails the tick makes no driver call.
\<close>

lemma tick_reading:
  assumes "tick_reads co svc" and "getCurrentUID svc = Some u"
  shows "tick drv (co\<lparr>nfcService := Some svc\<rparr>) env =
           (case readTag drv svc env of
              (Inr rec, svc', env') \<Rightarrow>
                (tick_read_done u rec (co\<lparr>isBusy := True, nfcService := Some svc'\<rparr>), env')
            | (Inl err, svc', env') \<Rightarrow>
                (tick_read_failed err (co\<lparr>isBusy := True, nfcService := Some svc'\<rparr>), env'))"
  using assms by (simp add: tick_reads_def tick_def tryGetNfcService_def split: prod.split sum.split)

lemma tick_not_reading:
  assumes "\<not> tick_reads co svc"
  shows "snd (tick drv (co\<lparr>nfcService := Some svc\<rparr>) env) = env"
  using assms by (auto simp: tick_reads_def tick_def tryGetNfcService_def split: option.splits)

text \<open>
  One tick of the enabled, idle loop whose read, if it starts one, succeeds: it sends one
  payload when the UID it sees differs from the last one seen and none otherwise, and
  then the last UID seen is the one it saw.
\<close>

lemma tick_step:
  assumes en: "autoEnabled co" "\<not> isBusy co" "mainWindow co" and l: "lastAutoUID co \<noteq> Some []"
    and rs: "tick_reads co svc \<longrightarrow> read_ok (fst (readTag drv svc env))"
  shows "\<exists>ns. autoEnabled (fst (tick drv (co\<lparr>nfcService := Some svc\<rparr>) env)) \<and>
          \<not> isBusy (fst (tick drv (co\<lparr>nfcService := Some svc\<rparr>) env)) \<and>
          mainWindow (fst (tick drv (co\<lparr>nfcService := Some svc\<rparr>) env)) \<and>
          lastAutoUID (fst (tick drv (co\<lparr>nfcService := Some svc\<rparr>) env)) = getCurrentUID svc \<and>
          sent (fst (tick drv (co\<lparr>nfcService := Some svc\<rparr>) env)) = sent co @ ns \<and>
          map present ns = (if getCurrentUID svc = lastAutoUID co then [] else [getCurrentUID svc \<noteq> None]) \<and>
          (\<forall>n \<in> set ns. error n = None \<and> (tagData n \<noteq> None) = present n)"
proof (cases "getCurrentUID svc")
  case None
  show ?thesis
  proof (cases "lastAutoUID co")
    case N: None
    with None en show ?thesis
      by (simp add: tick_def tryGetNfcService_def uid_truthy_def)
  next
    case (Some v)
    with l have "v \<noteq> []" by simp
    with None Some en show ?thesis
      by (simp add: tick_def tryGetNfcService_def uid_truthy_def sendAutoStatus_def)
  qed
next
  case (Some u)
  show ?thesis
  proof (cases "lastAutoUID co = Some u")
    case True
    with Some en show ?thesis
      by (simp add: tick_def tryGetNfcService_def)
  next
    case False
    with Some en have "tick_reads co svc"
      by (simp add: tick_reads_def)
    with rs have "read_ok (fst (readTag drv svc env))" by simp
    then obtain rec svc' env' where "readTag drv svc env = (Inr rec, svc', env')"
      by (cases "readTag drv svc env") (auto simp: read_ok_def split: sum.splits)
    with Some False en show ?thesis
      by (simp add: tick_def tryGetNfcService_def tick_read_done_def sendAutoStatus_def)
  qed
qed

lemma auto_ticks_sent:
  assumes "reads_succeed drv svcs co env"
    and "autoEnabled co" "\<not> isBusy co" "mainWindow co" "lastAutoUID co \<noteq> Some []"
  shows "\<exists>ns. sent (fst (auto_ticks drv svcs co env)) = sent co @ ns \<and>
           map present ns = map (\<lambda>u. u \<noteq> None) (tl (remdups_adj (lastAutoUID co # map getCurrentUID svcs))) \<and>
           (\<forall>n \<in> set ns. error n = None \<and> (tagData n \<noteq> None) = present n)"
  using assms
proof (induction svcs arbitrary: co env)
  case Nil
  then show ?case by simp
next
  case (Cons svc svcs)
  obtain co' env' where t: "tick drv (co\<lparr>nfcService := Some svc\<rparr>) env = (co', env')"
    by (cases "tick drv (co\<lparr>nfcService := Some svc\<rparr>) env")
  from Cons.prems(1) t have rs: "tick_reads co svc \<longrightarrow> read_ok (fst (readTag drv svc env))"
    and rest: "reads_succeed drv svcs co' env'"
    by simp_all
  let ?u = "getCurrentUID svc"
  let ?us = "map getCurrentUID svcs"
  let ?f = "\<lambda>u :: string option. u \<noteq> None"
  from tick_step [OF Cons.prems(2,3,4,5) rs] t
  obtain ms where co': "autoEnabled co'" "\<not> isBusy co'" "mainWindow co'"
    "lastAutoUID co' = ?u"
    and s: "sent co' = sent co @ ms"
    and ms: "map present ms = (if ?u = lastAutoUID co then [] else [?f ?u])"
      "\<forall>n \<in> set ms. error n = None \<and> (tagData n \<noteq> None) = present n"
    by auto
  have l': "lastAutoUID co' \<noteq> Some []"
    using co'(4) by (simp add: getCurrentUID_nonempty)
  from Cons.IH [OF rest co'(1,2,3) l'] obtain ns where
    ns: "sent (fst (auto_ticks drv svcs co' env')) = sent co' @ ns"
    "map present ns = map ?f (tl (remdups_adj (lastAutoUID co' # ?us)))"
    "\<forall>n \<in> set ns. error n = None \<and> (tagData n \<noteq> None) = present n"
    by blast
  have R: "map ?f (tl (remdups_adj (lastAutoUID co # map getCurrentUID (svc # svcs)))) =
      (if ?u = lastAutoUID co then [] else [?f ?u]) @ map ?f (tl (remdups_adj (?u # ?us)))"
  proof (cases "?u = lastAutoUID co")
    case True
    then show ?thesis by simp
  next
    case False
    then have "remdups_adj (lastAutoUID co # ?u # ?us) = lastAutoUID co # remdups_adj (?u # ?us)"
      by simp
    then have "tl (remdups_adj (lastAutoUID co # ?u # ?us)) = ?u # tl (remdups_adj (?u # ?us))"
      by (simp del: remdups_adj.simps)
    with False show ?thesis by (simp del: remdups_adj.simps remdups_adj_Cons_alt)
  qed
  show ?case
  proof (intro exI [of _ "ms @ ns"] conjI)
    show "sent (fst (auto_ticks drv (svc # svcs) co env)) = sent co @ ms @ ns"
      using t s ns(1) by simp
    show "map present (ms @ ns) =
        map ?f (tl (remdups_adj (lastAutoUID co # map getCurrentUID (svc # svcs))))"
      unfolding R using ms(1) ns(2) co'(4) by (simp del: remdups_adj_Cons_alt remdups_adj.simps)
    show "\<forall>n \<in> set (ms @ ns). error n = None \<and> (tagData n \<noteq> None) = present n"
      using ms(2) ns(3) by auto
  qed
qed

text \<open>
  A driver on which every read succeeds, in every state, makes every read of every run
  succeed.
\<close>

lemma reads_succeed_always:
  assumes "\<And>svc env. currentReader svc \<noteq> None \<and> \<not> busy svc \<Longrightarrow> read_ok (fst (readTag drv svc env))"
    and "\<forall>svc \<in> set svcs. getCurrentUID svc \<noteq> None \<longrightarrow> currentReader svc \<noteq> None \<and> \<not> busy svc"
  shows "reads_succeed drv svcs co env"
  using assms(2)
proof (induction svcs arbitrary: co env)
  case Nil
  then show ?case by simp
next
  case (Cons svc svcs)
  have "tick_reads co svc \<longrightarrow> read_ok (fst (readTag drv svc env))" for co and env :: "'a env"
    using Cons.prems assms(1) [of svc env] by (auto simp: tick_reads_def split: option.splits)
  moreover have "reads_succeed drv svcs co' env'" for co' env'
    using Cons.IH Cons.prems by simp
  ultimately show ?case by (simp split: prod.split)
qed

lemmas tick_defs = tick_def tick_read_failed_def tick_read_done_def sendAutoStatus_def
  uid_truthy_def getCurrentUID_def set_card_def card_uid_or_null_def sent_since_def
  null_message_error_def

text \<open>
  C5 as stated fails: on a tag that rejects both keys, two ticks that see the same UID
  send a \<^verbatim>\<open>present: true\<close> payload each, and the tick that sees the tag gone sends
  nothing.
\<close>

theorem auto_ticks_failed_read_counterexample:
  "getCurrentUID session_with_card = Some ''04A1'' \<and>
   getCurrentUID connected_session = None \<and>
   sent (fst (auto_ticks sim_driver [session_with_card, session_with_card, connected_session]
               watching_coordinator (locked_tag, []))) =
     [\<lparr>present = True, tagData = None, error = Some ''Authentication operation failed''\<rparr>,
      \<lparr>present = True, tagData = None, error = Some ''Authentication operation failed''\<rparr>]"
  by (simp add: watching_coordinator_def ready_coordinator_def session_with_card_def locked_tag_def
      tick_defs coord_defs run_defs sim_defs)

text \<open>
  C5, as the code has it: while auto-detect is enabled, the coordinator idle and the
  window open, and every read that the run performs succeeds, the payloads sent during a
  sequence of ticks are one for each change in the sequence of UIDs the ticks see,
  starting from the last UID seen before: \<^verbatim>\<open>present: true\<close> with the tag data for a
  change to a UID, \<^verbatim>\<open>present: false\<close> for a change to no UID, and nothing for a tick
  that sees the UID of the tick before.
\<close>

theorem auto_ticks_one_per_transition:
  assumes "reads_succeed drv svcs co env"
    and "autoEnabled co" and "\<not> isBusy co" and "mainWindow co" and "lastAutoUID co \<noteq> Some []"
  shows "map present (sent_since co (fst (auto_ticks drv svcs co env))) =
           map (\<lambda>u. u \<noteq> None) (tl (remdups_adj (lastAutoUID co # map getCurrentUID svcs))) \<and>
         (\<forall>n \<in> set (sent_since co (fst (auto_ticks drv svcs co env))).
            error n = None \<and> (tagData n \<noteq> None) = present n)"
  using auto_ticks_sent [OF assms] by (auto simp: sent_since_def)

theorem auto_ticks_one_per_transition_witness:
  "reads_succeed sim_driver
     [session_with_card, session_with_card, connected_session, connected_session, session_with_card]
     watching_coordinator (blank_tag, []) \<and>
   autoEnabled watching_coordinator \<and> \<not> isBusy watching_coordinator \<and>
   mainWindow watching_coordinator \<and> lastAutoUID watching_coordinator \<noteq> Some [] \<and>
   map getCurrentUID [session_with_card, session_with_card, connected_session, connected_session,
      session_with_card] = [Some ''04A1'', Some ''04A1'', None, None, Some ''04A1''] \<and>
   map present (sent_since watching_coordinator
      (fst (auto_ticks sim_driver
              [session_with_card, session_with_card, connected_session, connected_session,
               session_with_card] watching_coordinator (blank_tag, [])))) = [True, False, True]"
  using auto_ticks_one_per_transition [where drv = sim_driver
      and svcs = "[session_with_card, session_with_card, connected_session, connected_session,
               session_with_card]" and co = watching_coordinator and env = "(blank_tag, [])"]
  by (simp add: watching_coordinator_def ready_coordinator_def session_with_card_def
      tick_reads_def read_ok_def tick_defs coord_defs run_defs sim_defs)


section \<open>Mutual exclusion of the hardware sequences\<close>

lemma getNfcService_isBusy:
  "getNfcService drv f now co env = (res, co1, env1) \<Longrightarrow> isBusy co1 = isBusy co"
  by (auto simp: getNfcService_def split: option.splits if_splits prod.splits)

lemma isBusy_release [simp]: "isBusy (release co) = isBusy co"
  by (simp add: release_def)

lemma isBusy_sendAutoStatus [simp]: "isBusy (sendAutoStatus p co) = isBusy co"
  by (simp add: sendAutoStatus_def)

lemma isBusy_tick_read_failed [simp]: "\<not> isBusy (tick_read_failed err co)"
  by (simp add: tick_read_failed_def)

lemma isBusy_tick_read_done [simp]: "\<not> isBusy (tick_read_done u rec co)"
  by (simp add: tick_read_done_def)

lemma nfcService_sendAutoStatus [simp]: "nfcService (sendAutoStatus p co) = nfcService co"
  by (simp add: sendAutoStatus_def)

lemma getNfcService_Some:
  "nfcService co = Some svc \<Longrightarrow> getNfcService drv f now co env = (Inr svc, co, env)"
  by (simp add: getNfcService_def)

lemma busy_setError [simp]: "busy (setError now err svc) = busy svc"
  by (simp add: setError_def Let_def)

lemma busy_handle [simp]: "busy (handle now ev svc) = busy svc"
  by (cases ev) (simp_all add: set_card_def)

text \<open>Each kind of step keeps the exclusion.\<close>

lemma request_begin_exclusive:
  assumes "exclusive w"
  shows "exclusive (request_begin drv ow mk now w)"
proof (cases "isBusy (coord w)")
  case True
  with assms show ?thesis by (simp add: request_begin_def exclusive_def)
next
  case False
  with assms have f: "flights w = []" by (auto simp: exclusive_def)
  obtain res co1 env1 where
    g: "getNfcService drv True now ((coord w)\<lparr>isBusy := True\<rparr>) (denv w) = (res, co1, env1)"
    by (cases "getNfcService drv True now ((coord w)\<lparr>isBusy := True\<rparr>) (denv w)")
  from getNfcService_isBusy [OF g] have b: "isBusy co1" by simp
  show ?thesis
    using False f g b
    by (auto simp: request_begin_def exclusive_def op_begin_def split: sum.splits)
qed

lemma tick_begin_exclusive:
  assumes "exclusive w"
  shows "exclusive (tick_begin w)"
proof (cases "isBusy (coord w)")
  case True
  with assms show ?thesis by (simp add: tick_begin_def exclusive_def Let_def)
next
  case False
  with assms have f: "flights w = []" by (auto simp: exclusive_def)
  then show ?thesis
    by (auto simp: tick_begin_def exclusive_def op_begin_def Let_def split: option.splits)
qed

lemma auto_begin_exclusive:
  assumes "exclusive w"
  shows "exclusive (auto_begin drv now enable w)"
proof (cases enable)
  case False
  with assms show ?thesis
    by (auto simp: auto_begin_def exclusive_def stopAutoLoop_def Let_def)
next
  case True
  show ?thesis
  proof (cases "flights w = []")
    case f: True
    obtain res co1 env1 where
      g: "getNfcService drv True now ((coord w)\<lparr>autoEnabled := True\<rparr>) (denv w) = (res, co1, env1)"
      by (cases "getNfcService drv True now ((coord w)\<lparr>autoEnabled := True\<rparr>) (denv w)")
    from getNfcService_isBusy [OF g] have b: "isBusy co1 = isBusy (coord w)" by simp
    show ?thesis
      using True f g b
      by (auto simp: auto_begin_def exclusive_def op_begin_def stopAutoLoop_def startAutoLoop_def
          Let_def split: sum.splits option.splits)
  next
    case f: False
    with assms obtain svc where l: "length (flights w) = 1" and b: "isBusy (coord w)"
      and s: "nfcService (coord w) = Some svc" "busy svc"
      by (auto simp: exclusive_def)
    from s have "getNfcService drv True now ((coord w)\<lparr>autoEnabled := True\<rparr>) (denv w) =
        (Inr svc, (coord w)\<lparr>autoEnabled := True\<rparr>, denv w)"
      by (simp add: getNfcService_Some)
    with True l b s show ?thesis
      by (auto simp: auto_begin_def exclusive_def startAutoLoop_def Let_def split: option.splits)
  qed
qed

lemma settle_exclusive:
  assumes "exclusive w"
  shows "exclusive (step drv (Settle i oc) w)"
proof (cases "i < length (flights w) \<and> fits (flights w ! i) oc")
  case False
  with assms show ?thesis by auto
next
  case True
  with assms have l: "length (flights w) = 1" and i: "i = 0" by (auto simp: exclusive_def)
  with True have s: "step drv (Settle i oc) w = settled (flights w ! 0) oc (w\<lparr>flights := []\<rparr>)"
    by simp
  have "flights (settled ow oc (w\<lparr>flights := []\<rparr>)) = []" for ow
    by (cases ow) (auto simp: request_end_def tick_end_def auto_end_def split: outcome.splits)
  then show ?thesis unfolding s by (simp add: exclusive_def)
qed

lemma step_exclusive:
  assumes "exclusive w"
  shows "exclusive (step drv e w)"
proof (cases e)
  case (InitTimer now)
  show ?thesis
  proof (cases "flights w = []")
    case True
    with InitTimer show ?thesis
      by (simp add: init_timer_def exclusive_def split: prod.splits)
  next
    case False
    with assms obtain svc where "nfcService (coord w) = Some svc"
      by (auto simp: exclusive_def)
    then have "getNfcService drv False now (coord w) (denv w) = (Inr svc, coord w, denv w)"
      by (rule getNfcService_Some)
    with assms InitTimer show ?thesis
      by (simp add: init_timer_def exclusive_def)
  qed
next
  case (Driver now ev)
  with assms show ?thesis by (auto simp: driver_event_def exclusive_def)
next
  case (Settle i oc)
  with assms show ?thesis by (simp only: settle_exclusive)
qed (use assms in \<open>simp_all add: request_begin_exclusive tick_begin_exclusive auto_begin_exclusive\<close>)

lemma run_exclusive:
  assumes "exclusive w"
  shows "exclusive (run drv evs w)"
  using assms
proof (induction evs arbitrary: w)
  case Nil
  then show ?case by (simp add: run_def)
next
  case (Cons e evs)
  from Cons.prems have "exclusive (step drv e w)" by (rule step_exclusive)
  from Cons.IH [OF this] show ?case by (simp add: run_def)
qed

text \<open>
  C1: from a world with no sequence in flight, after any sequence of read requests, write
  requests, auto-detect requests, timer ticks, driver events and settlements, at most one
  sequence is in flight, and while one is the busy flag of the coordinator and the lock of
  the session are set. In any world whose busy flag is set, a read or write request
  returns the busy result and changes nothing else, and a tick changes nothing. On a
  session whose lock is set, \<open>readTag\<close> and \<open>writeTag\<close> fail with \<^verbatim>\<open>Busy\<close> and call
  nothing.
\<close>

theorem at_most_one_sequence_in_flight:
  assumes "flights w0 = []"
  shows "length (flights (run drv evs w0)) \<le> 1 \<and>
         (flights (run drv evs w0) \<noteq> [] \<longrightarrow>
            isBusy (coord (run drv evs w0)) \<and>
            (\<exists>svc. nfcService (coord (run drv evs w0)) = Some svc \<and> busy svc)) \<and>
         (isBusy (coord w) \<longrightarrow>
            step drv (ReqRead now) w = w\<lparr>replies := replies w @ [ReadReply busy_response]\<rparr> \<and>
            step drv (ReqWrite now) w = w\<lparr>replies := replies w @ [WriteReply busy_response]\<rparr> \<and>
            step drv TimerTick w = w) \<and>
         (currentReader svc \<noteq> None \<and> busy svc \<longrightarrow>
            readTag drv svc env = (Inl (new_Error ''Busy''), svc, env) \<and>
            writeTag drv m c mf svc env = (Inl (new_Error ''Busy''), svc, env))"
proof -
  from assms have "exclusive w0" by (simp add: exclusive_def)
  then have "exclusive (run drv evs w0)" by (rule run_exclusive)
  then have "length (flights (run drv evs w0)) \<le> 1 \<and>
      (flights (run drv evs w0) \<noteq> [] \<longrightarrow>
         isBusy (coord (run drv evs w0)) \<and>
         (\<exists>svc. nfcService (coord (run drv evs w0)) = Some svc \<and> busy svc))"
    by (auto simp: exclusive_def)
  moreover have "isBusy (coord w) \<longrightarrow>
      step drv (ReqRead now) w = w\<lparr>replies := replies w @ [ReadReply busy_response]\<rparr> \<and>
      step drv (ReqWrite now) w = w\<lparr>replies := replies w @ [WriteReply busy_response]\<rparr> \<and>
      step drv TimerTick w = w"
    by (simp add: request_begin_def tick_begin_def Let_def)
  moreover have "currentReader svc \<noteq> None \<and> busy svc \<longrightarrow>
      readTag drv svc env = (Inl (new_Error ''Busy''), svc, env) \<and>
      writeTag drv m c mf svc env = (Inl (new_Error ''Busy''), svc, env)"
    by (simp add: readTag_def writeTag_def withLock_def)
  ultimately show ?thesis by simp
qed

text \<open>
  In the sample run the read of the auto-detect request is in flight when a tick and two
  manual requests arrive: the tick does nothing and both requests get the busy result. At
  the end the write is in flight alone, and a further read request gets the busy result.
\<close>

theorem at_most_one_sequence_in_flight_witness:
  "flights (initial_world blank_tag) = [] \<and>
   flights (run sim_driver sample_events (initial_world blank_tag)) = [ManualWrite] \<and>
   isBusy (coord (run sim_driver sample_events (initial_world blank_tag))) \<and>
   replies (run sim_driver sample_events (initial_world blank_tag)) =
     [ReadReply \<lparr>success = False, rdata = None, messageKey = Some ''nfcNotConnected'',
                 details = Some ''NFC_NOT_CONNECTED''\<rparr>,
      ReadReply busy_response, WriteReply busy_response, AutoReply True None] \<and>
   step sim_driver (ReqRead 70) (run sim_driver sample_events (initial_world blank_tag)) =
     (run sim_driver sample_events (initial_world blank_tag))
       \<lparr>replies := replies (run sim_driver sample_events (initial_world blank_tag)) @
          [ReadReply busy_response]\<rparr> \<and>
   step sim_driver TimerTick (run sim_driver sample_events (initial_world blank_tag)) =
     run sim_driver sample_events (initial_world blank_tag) \<and>
   currentReader (connected_session\<lparr>busy := True\<rparr>) \<noteq> None \<and>
   busy (connected_session\<lparr>busy := True\<rparr>) \<and>
   readTag sim_driver (connected_session\<lparr>busy := True\<rparr>) (blank_tag, []) =
     (Inl (new_Error ''Busy''), connected_session\<lparr>busy := True\<rparr>, (blank_tag, []))"
proof -
  let ?w = "run sim_driver sample_events (initial_world blank_tag)"
  have f0: "flights (initial_world blank_tag) = []"
    by (simp add: initial_world_def)
  have f1: "flights ?w = [ManualWrite]"
    by code_simp
  have f2: "isBusy (coord ?w)"
    by code_simp
  have f3: "replies ?w =
     [ReadReply \<lparr>success = False, rdata = None, messageKey = Some ''nfcNotConnected'',
                 details = Some ''NFC_NOT_CONNECTED''\<rparr>,
      ReadReply busy_response, WriteReply busy_response, AutoReply True None]"
    by code_simp
  have f4: "currentReader (connected_session\<lparr>busy := True\<rparr>) \<noteq> None"
    "busy (connected_session\<lparr>busy := True\<rparr>)"
    by (simp_all add: connected_session_def setError_def)
  from at_most_one_sequence_in_flight [OF f0, where evs = sample_events and drv = sim_driver
      and w = ?w and now = 70 and svc = "connected_session\<lparr>busy := True\<rparr>"
      and env = "(blank_tag, [])"] f2 f4
  have "step sim_driver (ReqRead 70) ?w = ?w\<lparr>replies := replies ?w @ [ReadReply busy_response]\<rparr>"
    and "step sim_driver TimerTick ?w = ?w"
    and "readTag sim_driver (connected_session\<lparr>busy := True\<rparr>) (blank_tag, []) =
      (Inl (new_Error ''Busy''), connected_session\<lparr>busy := True\<rparr>, (blank_tag, []))"
    by blast+
  with f0 f1 f2 f3 f4 show ?thesis by blast
qed

section \<open>A handler run at once and run in two steps\<close>

text \<open>
  The handlers are modelled twice: from call to result, with the driver answering at once,
  and in the steps of the interleaving, where the sequence settles in a later event. The
  two agree: when nothing is in flight, a request or a tick followed by the settlement
  that the driver's answers determine leaves the coordinator, the driver and the replies
  as the handler run at once does.
\<close>

lemma readTag_in_two_parts:
  "readTag drv svc env =
     (case op_begin svc of
        (Some e, svc1) \<Rightarrow> (Inl e, svc1, env)
      | (None, svc1) \<Rightarrow>
          (case read_sequence drv svc1 env of (res, svc2, env2) \<Rightarrow> (res, svc2\<lparr>busy := False\<rparr>, env2)))"
  by (simp add: readTag_def withLock_def op_begin_def)

lemma read_sequence_svc: "fst (snd (read_sequence drv svc env)) = svc"
  by (simp add: read_sequence_def split: prod.splits sum.splits option.splits)

lemma read_request_in_two_steps:
  assumes "flights w = []"
  shows "case rfid_read drv now (coord w) (denv w) of
           (resp, co', env') \<Rightarrow>
             (let w1 = step drv (ReqRead now) w in
              if flights w1 = []
              then coord w1 = co' \<and> denv w1 = env' \<and> replies w1 = replies w @ [ReadReply resp]
              else (case nfcService (coord w1) of
                      None \<Rightarrow> False
                    | Some svc1 \<Rightarrow>
                        (case read_sequence drv svc1 (denv w1) of
                           (res, svc2, env2) \<Rightarrow>
                             (let w2 = step drv (Settle 0 (outcome_of_read res)) w1 in
                              coord w2 = co' \<and> env2 = env' \<and>
                              replies w2 = replies w @ [ReadReply resp]))))"
proof (cases "isBusy (coord w)")
  case True
  with assms show ?thesis
    by (simp add: rfid_read_def request_begin_def)
next
  case False
  obtain res co1 env1 where
    g: "getNfcService drv True now ((coord w)\<lparr>isBusy := True\<rparr>) (denv w) = (res, co1, env1)"
    by (cases "getNfcService drv True now ((coord w)\<lparr>isBusy := True\<rparr>) (denv w)")
  show ?thesis
  proof (cases res)
    case (Inl err)
    with False g assms show ?thesis
      by (simp add: rfid_read_def request_begin_def)
  next
    case (Inr svc)
    obtain r svc2 env2 where rs: "read_sequence drv (svc\<lparr>busy := True\<rparr>) env1 = (r, svc2, env2)"
      by (cases "read_sequence drv (svc\<lparr>busy := True\<rparr>) env1")
    with read_sequence_svc [of drv "svc\<lparr>busy := True\<rparr>" env1] have s2: "svc2 = svc\<lparr>busy := True\<rparr>"
      by simp
    from False g assms Inr rs s2 show ?thesis
      by (cases r)
        (auto simp: rfid_read_def request_begin_def readTag_in_two_parts op_begin_def Let_def
          request_end_def release_def outcome_of_read_def)
  qed
qed

lemma writeTag_in_two_parts:
  "writeTag drv m c mf svc env =
     (case op_begin svc of
        (Some e, svc1) \<Rightarrow> (Inl e, svc1, env)
      | (None, svc1) \<Rightarrow>
          (case write_sequence drv m c mf svc1 env of
             (res, svc2, env2) \<Rightarrow> (res, svc2\<lparr>busy := False\<rparr>, env2)))"
  by (simp add: writeTag_def withLock_def op_begin_def)

lemma write_sequence_svc: "fst (snd (write_sequence drv m c mf svc env)) = svc"
  by (simp add: write_sequence_def Let_def split: prod.splits sum.splits option.splits)

lemma write_request_in_two_steps:
  assumes "flights w = []"
  shows "case rfid_write drv now m c mf (coord w) (denv w) of
           (resp, co', env') \<Rightarrow>
             (let w1 = step drv (ReqWrite now) w in
              if flights w1 = []
              then coord w1 = co' \<and> denv w1 = env' \<and> replies w1 = replies w @ [WriteReply resp]
              else (case nfcService (coord w1) of
                      None \<Rightarrow> False
                    | Some svc1 \<Rightarrow>
                        (case write_sequence drv m c (Some mf) svc1 (denv w1) of
                           (res, svc2, env2) \<Rightarrow>
                             (let w2 = step drv (Settle 0 (outcome_of_write res)) w1 in
                              coord w2 = co' \<and> env2 = env' \<and>
                              replies w2 = replies w @ [WriteReply resp]))))"
proof (cases "isBusy (coord w)")
  case True
  with assms show ?thesis
    by (simp add: rfid_write_def request_begin_def)
next
  case False
  obtain res co1 env1 where
    g: "getNfcService drv True now ((coord w)\<lparr>isBusy := True\<rparr>) (denv w) = (res, co1, env1)"
    by (cases "getNfcService drv True now ((coord w)\<lparr>isBusy := True\<rparr>) (denv w)")
  show ?thesis
  proof (cases res)
    case (Inl err)
    with False g assms show ?thesis
      by (simp add: rfid_write_def request_begin_def)
  next
    case (Inr svc)
    obtain r svc2 env2 where
      rs: "write_sequence drv m c (Some mf) (svc\<lparr>busy := True\<rparr>) env1 = (r, svc2, env2)"
      by (cases "write_sequence drv m c (Some mf) (svc\<lparr>busy := True\<rparr>) env1")
    with write_sequence_svc [of drv m c "Some mf" "svc\<lparr>busy := True\<rparr>" env1]
    have s2: "svc2 = svc\<lparr>busy := True\<rparr>"
      by simp
    from False g assms Inr rs s2 show ?thesis
      by (cases r)
        (auto simp: rfid_write_def request_begin_def writeTag_in_two_parts op_begin_def Let_def
          request_end_def release_def outcome_of_write_def)
  qed
qed

lemma tick_in_two_steps:
  assumes "flights w = []" and "autoLoop (coord w)"
  shows "case tick drv (coord w) (denv w) of
           (co', env') \<Rightarrow>
             (let w1 = step drv TimerTick w in
              if flights w1 = []
              then coord w1 = co' \<and> denv w1 = env' \<and> replies w1 = replies w
              else (case nfcService (coord w1) of
                      None \<Rightarrow> False
                    | Some svc1 \<Rightarrow>
                        (case read_sequence drv svc1 (denv w1) of
                           (res, svc2, env2) \<Rightarrow>
                             (let w2 = step drv (Settle 0 (outcome_of_read res)) w1 in
                              coord w2 = co' \<and> env2 = env' \<and> replies w2 = replies w))))"
proof (cases "autoEnabled (coord w) \<and> \<not> isBusy (coord w)")
  case False
  with assms show ?thesis
    by (auto simp: tick_def tick_begin_def Let_def)
next
  case en: True
  show ?thesis
  proof (cases "nfcService (coord w)")
    case None
    with en assms show ?thesis
      by (simp add: tick_def tick_begin_def Let_def tryGetNfcService_def)
  next
    case (Some svc)
    show ?thesis
    proof (cases "getCurrentUID svc")
      case N: None
      with en assms Some show ?thesis
        by (simp add: tick_def tick_begin_def Let_def tryGetNfcService_def)
    next
      case U: (Some u)
      show ?thesis
      proof (cases "lastAutoUID (coord w) = Some u")
        case True
        with en assms Some U show ?thesis
          by (simp add: tick_def tick_begin_def Let_def tryGetNfcService_def)
      next
        case False
        obtain r svc2 env2 where
          rs: "read_sequence drv (svc\<lparr>busy := True\<rparr>) (denv w) = (r, svc2, env2)"
          by (cases "read_sequence drv (svc\<lparr>busy := True\<rparr>) (denv w)")
        with read_sequence_svc [of drv "svc\<lparr>busy := True\<rparr>" "denv w"]
        have s2: "svc2 = svc\<lparr>busy := True\<rparr>"
          by simp
        from False en assms Some U rs s2 show ?thesis
          by (cases r)
            (auto simp: tick_def tick_begin_def Let_def tryGetNfcService_def readTag_in_two_parts
              op_begin_def tick_end_def release_def outcome_of_read_def
              tick_read_failed_def tick_read_done_def sendAutoStatus_def)
      qed
    qed
  qed
qed

end
